theory Spec2Isabelle
  imports Main "HOL-Library.Sublist" "HOL-Library.Word" "HOL-Library.Signed_Division"
    "HOL-Library.Code_Target_Nat"
begin

section \<open>Java strings\<close>

text \<open>
  A Java \<^verbatim>\<open>String\<close> is a sequence of UTF-16 code units, and \<^verbatim>\<open>length()\<close>, the
  column numbers of a token and the indices of \<^verbatim>\<open>substring\<close> all count code units. The
  snippets are Cyrillic, so a string is modelled as the list of its code units (natural
  numbers below 65536); an ASCII literal is written through \<open>jstr\<close>, a Cyrillic one as
  the list of its code points.
\<close>

type_synonym jchar = nat
type_synonym jstring = "nat list"

definition jstr :: "string \<Rightarrow> jstring" where
  "jstr s = map of_char s"

text \<open>\<^verbatim>\<open>String.trim()\<close>: drops the leading and the trailing code units up to U+0020.\<close>

definition trim :: "jstring \<Rightarrow> jstring" where
  "trim s = rev (dropWhile (\<lambda>c. c \<le> 32) (rev (dropWhile (\<lambda>c. c \<le> 32) s)))"

definition startsWith :: "jstring \<Rightarrow> jstring \<Rightarrow> bool" where
  "startsWith s p = prefix p s"

definition endsWith :: "jstring \<Rightarrow> jstring \<Rightarrow> bool" where
  "endsWith s p = suffix p s"

text \<open>\<^verbatim>\<open>String.contains\<close>: the argument occurs as a contiguous run.\<close>

definition contains :: "jstring \<Rightarrow> jstring \<Rightarrow> bool" where
  "contains s p = sublist p s"

text \<open>\<^verbatim>\<open>s.substring(b, e)\<close> and \<^verbatim>\<open>s.substring(b)\<close>, for \<open>b \<le> e \<le> length s\<close> (every call of
  the source computes its indices from a match inside \<open>s\<close>).\<close>

definition substring :: "jstring \<Rightarrow> nat \<Rightarrow> nat \<Rightarrow> jstring" where
  "substring s b e = take (e - b) (drop b s)"

definition substringFrom :: "jstring \<Rightarrow> nat \<Rightarrow> jstring" where
  "substringFrom s b = drop b s"

text \<open>\<^verbatim>\<open>s.indexOf(p, frm)\<close>: the least index at or after \<open>frm\<close> where \<open>p\<close> starts, or -1.\<close>

fun indexOfFrom :: "jstring \<Rightarrow> jstring \<Rightarrow> nat \<Rightarrow> int" where
  "indexOfFrom s p frm =
     (case filter (\<lambda>i. prefix p (drop i s)) [frm ..< Suc (length s)] of
        [] \<Rightarrow> -1
      | i # _ \<Rightarrow> int i)"

definition indexOf :: "jstring \<Rightarrow> jstring \<Rightarrow> int" where
  "indexOf s p = indexOfFrom s p 0"

text \<open>\<^verbatim>\<open>s.lastIndexOf(p)\<close>: the greatest index where \<open>p\<close> starts, or -1.\<close>

definition lastIndexOf :: "jstring \<Rightarrow> jstring \<Rightarrow> int" where
  "lastIndexOf s p =
     (case rev (filter (\<lambda>i. prefix p (drop i s)) [0 ..< Suc (length s)]) of
        [] \<Rightarrow> -1
      | i # _ \<Rightarrow> int i)"

text \<open>Decimal digits of a natural number, and \<^verbatim>\<open>Long.toString\<close> of a signed value.\<close>

fun digitsOf :: "nat \<Rightarrow> jstring" where
  "digitsOf n = (if n < 10 then [48 + n] else digitsOf (n div 10) @ [48 + n mod 10])"

declare digitsOf.simps [simp del]

definition longToString :: "int \<Rightarrow> jstring" where
  "longToString k = (if k < 0 then 45 # digitsOf (nat (- k)) else digitsOf (nat k))"

section \<open>The regular expressions of \<^verbatim>\<open>java.util.regex\<close> that the services use\<close>

text \<open>
  The patterns of the source are built from literals, character classes, sequence,
  alternation, greedy and reluctant repetition, capturing groups, a negative lookahead,
  the word boundary and the dollar anchor. \<open>rmatch\<close> is the backtracking matcher: it
  returns, in the order in which Java tries them, every end position (with the groups
  captured so far) at which the expression can match from position \<open>i\<close>; the first
  element is the matcher's choice. Classes are tested per code unit; every class of the
  source that accepts a surrogate is followed by a character that is not one, so the
  positions agree with Java's code-point matching. Every expression that the source
  repeats consumes at least one character, so a repetition continues only after an
  iteration that has advanced; Java stops an iteration that has not advanced as well.

  The boundary test \<^verbatim>\<open>\b\<close> rests on the JDK's character tables, which changed between
  releases; it is the parameter \<open>wb\<close> (\<open>wb s i\<close>: position \<open>i\<close> of \<open>s\<close> is a boundary).
\<close>

datatype rx =
    Chr jchar
  | Cls "jchar \<Rightarrow> bool"
  | Eps
  | Seq rx rx
  | Alt rx rx
  | Star rx
  | Reluctant rx
  | Group nat rx
  | NotAhead rx
  | WordBoundary
  | Dollar bool

type_synonym caps = "(nat \<times> nat \<times> nat) list"

text \<open>A line terminator of \<^verbatim>\<open>Pattern\<close>: \<^verbatim>\<open>\n\<close>, \<^verbatim>\<open>\r\<close>, U+0085, U+2028, U+2029.\<close>

definition lineTerminator :: "jchar \<Rightarrow> bool" where
  "lineTerminator c \<longleftrightarrow> c = 10 \<or> c = 13 \<or> c = 133 \<or> c = 8232 \<or> c = 8233"

text \<open>\<^verbatim>\<open>Pattern.Dollar.match\<close>; the flag is \<^verbatim>\<open>MULTILINE\<close>.\<close>

definition dollar :: "bool \<Rightarrow> jstring \<Rightarrow> nat \<Rightarrow> bool" where
  "dollar multiline s i =
     (let n = length s in
      if \<not> multiline \<and> i + 2 < n then False
      else if \<not> multiline \<and> i + 2 = n \<and> \<not> (s ! i = 13 \<and> s ! (i + 1) = 10) then False
      else if i < n then
        (if s ! i = 10 then
           (if 0 < i \<and> s ! (i - 1) = 13 then False else True)
         else if s ! i = 13 \<or> s ! i = 133 \<or> s ! i = 8232 \<or> s ! i = 8233 then True
         else False)
      else True)"

function (sequential) rmatch ::
  "(jstring \<Rightarrow> nat \<Rightarrow> bool) \<Rightarrow> rx \<Rightarrow> jstring \<Rightarrow> nat \<Rightarrow> caps \<Rightarrow> (nat \<times> caps) list" where
  "rmatch wb (Chr a) s i c = (if i < length s \<and> s ! i = a then [(Suc i, c)] else [])"
| "rmatch wb (Cls P) s i c = (if i < length s \<and> P (s ! i) then [(Suc i, c)] else [])"
| "rmatch wb Eps s i c = [(i, c)]"
| "rmatch wb (Seq r1 r2) s i c =
     concat (map (\<lambda>jc. rmatch wb r2 s (fst jc) (snd jc)) (rmatch wb r1 s i c))"
| "rmatch wb (Alt r1 r2) s i c = rmatch wb r1 s i c @ rmatch wb r2 s i c"
| "rmatch wb (Star r) s i c =
     concat (map (\<lambda>jc. if i < fst jc \<and> fst jc \<le> length s
                        then rmatch wb (Star r) s (fst jc) (snd jc) else [])
                 (rmatch wb r s i c)) @ [(i, c)]"
| "rmatch wb (Reluctant r) s i c =
     (i, c) # concat (map (\<lambda>jc. if i < fst jc \<and> fst jc \<le> length s
                                 then rmatch wb (Reluctant r) s (fst jc) (snd jc) else [])
                          (rmatch wb r s i c))"
| "rmatch wb (Group g r) s i c = map (\<lambda>jc. (fst jc, (g, i, fst jc) # snd jc)) (rmatch wb r s i c)"
| "rmatch wb (NotAhead r) s i c = (if rmatch wb r s i c = [] then [(i, c)] else [])"
| "rmatch wb WordBoundary s i c = (if wb s i then [(i, c)] else [])"
| "rmatch wb (Dollar multiline) s i c = (if dollar multiline s i then [(i, c)] else [])"
  by pat_completeness auto
termination
  by (relation "measures [\<lambda>(wb, r, s, i, c). size r, \<lambda>(wb, r, s, i, c). length s - i]") auto

declare rmatch.simps [simp del]

lemma rmatch_bounds:
  "jc \<in> set (rmatch wb r s i c) \<Longrightarrow> i \<le> fst jc \<and> (i \<le> length s \<longrightarrow> fst jc \<le> length s)"
proof (induction wb r s i c arbitrary: jc rule: rmatch.induct)
  case (1 wb a s i c)
  then show ?case by (auto simp: rmatch.simps(1) split: if_splits)
next
  case (2 wb P s i c)
  then show ?case by (auto simp: rmatch.simps(2) split: if_splits)
next
  case (3 wb s i c)
  then show ?case by (simp add: rmatch.simps(3))
next
  case (4 wb r1 r2 s i c)
  from "4.prems" obtain kc where k: "kc \<in> set (rmatch wb r1 s i c)"
    and j: "jc \<in> set (rmatch wb r2 s (fst kc) (snd kc))"
    by (auto simp: rmatch.simps(4))
  from "4.IH"(1) [OF k] "4.IH"(2) [OF k j] show ?case by auto
next
  case (5 wb r1 r2 s i c)
  from "5.prems" have "jc \<in> set (rmatch wb r1 s i c) \<or> jc \<in> set (rmatch wb r2 s i c)"
    by (simp add: rmatch.simps(5))
  with "5.IH" show ?case by blast
next
  case (6 wb r s i c)
  from "6.prems" have "jc = (i, c) \<or> (\<exists>kc \<in> set (rmatch wb r s i c).
      i < fst kc \<and> fst kc \<le> length s \<and> jc \<in> set (rmatch wb (Star r) s (fst kc) (snd kc)))"
    by (subst (asm) rmatch.simps(6)) (auto split: if_splits)
  then show ?case
  proof
    assume "jc = (i, c)"
    then show ?thesis by simp
  next
    assume "\<exists>kc \<in> set (rmatch wb r s i c).
      i < fst kc \<and> fst kc \<le> length s \<and> jc \<in> set (rmatch wb (Star r) s (fst kc) (snd kc))"
    then obtain kc where k: "kc \<in> set (rmatch wb r s i c)"
      and g: "i < fst kc \<and> fst kc \<le> length s"
      and j: "jc \<in> set (rmatch wb (Star r) s (fst kc) (snd kc))" by blast
    from "6.IH"(2) [OF k g j] g show ?thesis by auto
  qed
next
  case (7 wb r s i c)
  from "7.prems" have "jc = (i, c) \<or> (\<exists>kc \<in> set (rmatch wb r s i c).
      i < fst kc \<and> fst kc \<le> length s \<and> jc \<in> set (rmatch wb (Reluctant r) s (fst kc) (snd kc)))"
    by (subst (asm) rmatch.simps(7)) (auto split: if_splits)
  then show ?case
  proof
    assume "jc = (i, c)"
    then show ?thesis by simp
  next
    assume "\<exists>kc \<in> set (rmatch wb r s i c).
      i < fst kc \<and> fst kc \<le> length s \<and> jc \<in> set (rmatch wb (Reluctant r) s (fst kc) (snd kc))"
    then obtain kc where k: "kc \<in> set (rmatch wb r s i c)"
      and g: "i < fst kc \<and> fst kc \<le> length s"
      and j: "jc \<in> set (rmatch wb (Reluctant r) s (fst kc) (snd kc))" by blast
    from "7.IH"(2) [OF k g j] g show ?thesis by auto
  qed
next
  case (8 wb g r s i c)
  from "8.prems" obtain kc where k: "kc \<in> set (rmatch wb r s i c)" and "fst jc = fst kc"
    by (auto simp: rmatch.simps(8))
  with "8.IH" [OF k] show ?case by simp
next
  case (9 wb r s i c)
  then show ?case by (auto simp: rmatch.simps(9) split: if_splits)
next
  case (10 wb s i c)
  then show ?case by (auto simp: rmatch.simps(10) split: if_splits)
next
  case (11 wb multiline s i c)
  then show ?case by (auto simp: rmatch.simps(11) split: if_splits)
qed
text \<open>\<^verbatim>\<open>Matcher.find\<close> from a given index: the leftmost start at which the expression
  matches, with the end and the groups of the matcher's first choice there.\<close>

function rfind ::
  "(jstring \<Rightarrow> nat \<Rightarrow> bool) \<Rightarrow> rx \<Rightarrow> jstring \<Rightarrow> nat \<Rightarrow> (nat \<times> nat \<times> caps) option" where
  "rfind wb r s frm =
     (if length s < frm then None
      else case rmatch wb r s frm [] of
             [] \<Rightarrow> rfind wb r s (Suc frm)
           | jc # _ \<Rightarrow> Some (frm, fst jc, snd jc))"
  by pat_completeness auto
termination
  by (relation "measure (\<lambda>(wb, r, s, frm). Suc (length s) - frm)") auto

declare rfind.simps [simp del]

lemma rfind_bounds:
  "rfind wb r s frm = Some (st, en, c) \<Longrightarrow> frm \<le> st \<and> st \<le> en \<and> en \<le> length s"
proof (induction wb r s frm rule: rfind.induct)
  case (1 wb r s frm)
  have le: "frm \<le> length s"
    using "1.prems" by (cases "length s < frm") (simp_all add: rfind.simps [of wb r s frm])
  show ?case
  proof (cases "rmatch wb r s frm []")
    case Nil
    with "1.prems" le have "rfind wb r s (Suc frm) = Some (st, en, c)"
      by (simp add: rfind.simps [of wb r s frm])
    with "1.IH" le Nil show ?thesis by fastforce
  next
    case (Cons jc rest)
    then have "jc \<in> set (rmatch wb r s frm [])" by simp
    from rmatch_bounds [OF this] le have b: "frm \<le> fst jc \<and> fst jc \<le> length s" by simp
    from "1.prems" le Cons have "st = frm \<and> en = fst jc"
      by (simp add: rfind.simps [of wb r s frm])
    with b show ?thesis by simp
  qed
qed

text \<open>The loop \<^verbatim>\<open>while (matcher.find())\<close>: each search starts where the previous match
  ended, one further when that match was empty, and fails beyond the end of the input.\<close>

function findAll ::
  "(jstring \<Rightarrow> nat \<Rightarrow> bool) \<Rightarrow> rx \<Rightarrow> jstring \<Rightarrow> nat \<Rightarrow> (nat \<times> nat \<times> caps) list" where
  "findAll wb r s frm =
     (case rfind wb r s frm of
        None \<Rightarrow> []
      | Some m \<Rightarrow>
          m # (let nxt = (if fst (snd m) = fst m then Suc (fst (snd m)) else fst (snd m))
               in if nxt \<le> length s then findAll wb r s nxt else []))"
  by pat_completeness auto
termination
proof (relation "measure (\<lambda>(wb, r, s, frm). Suc (length s) - frm)", goal_cases)
  case 1
  show ?case by simp
next
  case (2 wb r s frm m nxt)
  from "2"(1) have "rfind wb r s frm = Some (fst m, fst (snd m), snd (snd m))" by simp
  from rfind_bounds [OF this] "2"(2,3) show ?case by (auto split: if_splits)
qed

declare findAll.simps [simp del]

text \<open>\<^verbatim>\<open>matcher.group(g)\<close> of a match whose group \<open>g\<close> took part.\<close>

definition groupText :: "jstring \<Rightarrow> caps \<Rightarrow> nat \<Rightarrow> jstring" where
  "groupText s c g =
     (case filter (\<lambda>e. fst e = g) c of
        [] \<Rightarrow> []
      | e # _ \<Rightarrow> substring s (fst (snd e)) (snd (snd e)))"

text \<open>\<^verbatim>\<open>s.replaceFirst(regex, replacement)\<close> for a replacement without group references.\<close>

definition replaceFirst :: "(jstring \<Rightarrow> nat \<Rightarrow> bool) \<Rightarrow> rx \<Rightarrow> jstring \<Rightarrow> jstring \<Rightarrow> jstring" where
  "replaceFirst wb r s repl =
     (case rfind wb r s 0 of
        None \<Rightarrow> s
      | Some m \<Rightarrow> take (fst m) s @ repl @ drop (fst (snd m)) s)"

text \<open>Building blocks: a literal text, \<^verbatim>\<open>X+\<close>, \<^verbatim>\<open>X?\<close>, the dot, \<^verbatim>\<open>\s\<close> and \<^verbatim>\<open>\d\<close>.\<close>

definition lit :: "jstring \<Rightarrow> rx" where
  "lit s = foldr (\<lambda>a r. Seq (Chr a) r) s Eps"

definition plus :: "rx \<Rightarrow> rx" where
  "plus r = Seq r (Star r)"

definition opt :: "rx \<Rightarrow> rx" where
  "opt r = Alt r Eps"

definition dot :: rx where
  "dot = Cls (\<lambda>c. \<not> lineTerminator c)"

definition space :: rx where
  "space = Cls (\<lambda>c. c = 32 \<or> c = 9 \<or> c = 10 \<or> c = 11 \<or> c = 12 \<or> c = 13)"

definition digit :: rx where
  "digit = Cls (\<lambda>c. 48 \<le> c \<and> c \<le> 57)"

definition seqs :: "rx list \<Rightarrow> rx" where
  "seqs rs = foldr Seq rs Eps"

text \<open>\<^verbatim>\<open>s.split(sep)\<close> for a literal, non-empty separator: the pieces between the
  occurrences found from left to right; the string itself when there is none; trailing
  empty pieces removed.\<close>

function splitPieces :: "jstring \<Rightarrow> jstring \<Rightarrow> jstring list" where
  "splitPieces sep [] = [[]]"
| "splitPieces sep (x # xs) =
     (if sep \<noteq> [] \<and> prefix sep (x # xs)
      then [] # splitPieces sep (drop (length sep) (x # xs))
      else (let ps = splitPieces sep xs in (x # hd ps) # tl ps))"
  by pat_completeness auto
termination
  by (relation "measure (\<lambda>(sep, s). length s)") auto

definition split :: "jstring \<Rightarrow> jstring \<Rightarrow> jstring list" where
  "split s sep =
     (let ps = splitPieces sep s
      in if length ps = 1 then [s] else rev (dropWhile (\<lambda>p. p = []) (rev ps)))"

section \<open>The tokens and the word lists of \<^verbatim>\<open>TrivilSyntaxAnalysisService\<close>\<close>

record SyntaxToken =
  startLine :: nat
  startColumn :: nat
  endLine :: nat
  endColumn :: nat
  tokenType :: jstring
  tokenValue :: jstring
  semanticInfo :: "jstring option"

definition newSyntaxToken ::
  "nat \<Rightarrow> nat \<Rightarrow> nat \<Rightarrow> nat \<Rightarrow> jstring \<Rightarrow> jstring \<Rightarrow> jstring option \<Rightarrow> SyntaxToken" where
  "newSyntaxToken sl sc el ec ty v sem =
     \<lparr>startLine = sl, startColumn = sc, endLine = el, endColumn = ec,
      tokenType = ty, tokenValue = v, semanticInfo = sem\<rparr>"

text \<open>\<^verbatim>\<open>TRIVIL_KEYWORDS\<close>, in the order of the source: modul', import, vkhod, pust', esli,
  inache, poka, dlya, fn, funktsiya, klass, tip, konstanta, peremennaya, vozvrat, vernut',
  prervat', prodolzhit', vybor, sluchay, umolchanie, i, ili, ne, istina, lozh'.\<close>

definition TRIVIL_KEYWORDS :: "jstring list" where
  "TRIVIL_KEYWORDS =
    [[1084, 1086, 1076, 1091, 1083, 1100], [1080, 1084, 1087, 1086, 1088, 1090],
     [1074, 1093, 1086, 1076], [1087, 1091, 1089, 1090, 1100], [1077, 1089, 1083, 1080],
     [1080, 1085, 1072, 1095, 1077], [1087, 1086, 1082, 1072], [1076, 1083, 1103],
     [1092, 1085], [1092, 1091, 1085, 1082, 1094, 1080, 1103], [1082, 1083, 1072, 1089, 1089],
     [1090, 1080, 1087], [1082, 1086, 1085, 1089, 1090, 1072, 1085, 1090, 1072],
     [1087, 1077, 1088, 1077, 1084, 1077, 1085, 1085, 1072, 1103],
     [1074, 1086, 1079, 1074, 1088, 1072, 1090], [1074, 1077, 1088, 1085, 1091, 1090, 1100],
     [1087, 1088, 1077, 1088, 1074, 1072, 1090, 1100],
     [1087, 1088, 1086, 1076, 1086, 1083, 1078, 1080, 1090, 1100],
     [1074, 1099, 1073, 1086, 1088], [1089, 1083, 1091, 1095, 1072, 1081],
     [1091, 1084, 1086, 1083, 1095, 1072, 1085, 1080, 1077], [1080], [1080, 1083, 1080],
     [1085, 1077], [1080, 1089, 1090, 1080, 1085, 1072], [1083, 1086, 1078, 1100]]"

text \<open>\<^verbatim>\<open>BUILT_IN_TYPES\<close>: Tsel64, Slovo64, Veshch64, Log, Stroka, Simvol, Bayt, Pusto.\<close>

definition BUILT_IN_TYPES :: "jstring list" where
  "BUILT_IN_TYPES =
    [[1062, 1077, 1083, 54, 52], [1057, 1083, 1086, 1074, 1086, 54, 52],
     [1042, 1077, 1097, 54, 52], [1051, 1086, 1075], [1057, 1090, 1088, 1086, 1082, 1072],
     [1057, 1080, 1084, 1074, 1086, 1083], [1041, 1072, 1081, 1090],
     [1055, 1091, 1089, 1090, 1086]]"

definition BUILT_IN_FUNCTIONS :: "jstring list" where
  "BUILT_IN_FUNCTIONS = []"

section \<open>The patterns of the static pass\<close>

text \<open>The class \<^verbatim>\<open>[a-ya yo A-YA YO a-zA-Z_]\<close> of the source (Cyrillic U+0430..U+044F, U+0451,
  U+0410..U+042F, U+0401, the Latin letters and the underscore), and the class of the
  following characters, which adds the digits and the hyphen.\<close>

definition identStart :: "jchar \<Rightarrow> bool" where
  "identStart c \<longleftrightarrow>
     (1072 \<le> c \<and> c \<le> 1103) \<or> c = 1105 \<or> (1040 \<le> c \<and> c \<le> 1071) \<or> c = 1025 \<or>
     (97 \<le> c \<and> c \<le> 122) \<or> (65 \<le> c \<and> c \<le> 90) \<or> c = 95"

definition identPart :: "jchar \<Rightarrow> bool" where
  "identPart c \<longleftrightarrow>
     (1072 \<le> c \<and> c \<le> 1103) \<or> c = 1105 \<or> (1040 \<le> c \<and> c \<le> 1071) \<or> c = 1025 \<or>
     (97 \<le> c \<and> c \<le> 122) \<or> (65 \<le> c \<and> c \<le> 90) \<or> (48 \<le> c \<and> c \<le> 57) \<or> c = 95 \<or> c = 45"

definition ident :: rx where
  "ident = Seq (Cls identStart) (Star (Cls identPart))"

text \<open>\<^verbatim>\<open>//.*$\<close> under \<^verbatim>\<open>MULTILINE\<close>.\<close>

definition COMMENT_PATTERN :: rx where
  "COMMENT_PATTERN = seqs [Chr 47, Chr 47, Star dot, Dollar True]"

text \<open>A double quote, then any run of characters other than quote and backslash or
  backslash-escaped characters, then a double quote.\<close>

definition STRING_PATTERN :: rx where
  "STRING_PATTERN =
     seqs [Chr 34, Star (Alt (Cls (\<lambda>c. c \<noteq> 34 \<and> c \<noteq> 92)) (Seq (Chr 92) dot)), Chr 34]"

text \<open>\<^verbatim>\<open>\b\d+(?:\.\d+)?\b\<close>.\<close>

definition NUMBER_PATTERN :: rx where
  "NUMBER_PATTERN =
     seqs [WordBoundary, plus digit, opt (Seq (Chr 46) (plus digit)), WordBoundary]"

definition IDENTIFIER_PATTERN :: rx where
  "IDENTIFIER_PATTERN = ident"

text \<open>One of the characters \<^verbatim>\<open>+ - * / = < > ! & | ^ % : ; , . ( ) [ ] { }\<close>.\<close>

definition OPERATOR_PATTERN :: rx where
  "OPERATOR_PATTERN = Cls (\<lambda>c. c \<in> set (jstr ''+-*/=<>!&|^%:;,.()[]{}''))"

text \<open>\<^verbatim>\<open>fn\s+(ident)\s*\(\<close> with the Cyrillic keyword (U+0444 U+043D).\<close>

definition functionPattern :: rx where
  "functionPattern = seqs [Chr 1092, Chr 1085, plus space, Group 1 ident, Star space, Chr 40]"

text \<open>\<^verbatim>\<open>\(([^)]+)\)\<close>.\<close>

definition paramPattern :: rx where
  "paramPattern = seqs [Chr 40, Group 1 (plus (Cls (\<lambda>c. c \<noteq> 41))), Chr 41]"

text \<open>\<^verbatim>\<open>(ident)\s*:\<close>.\<close>

definition individualParamPattern :: rx where
  "individualParamPattern = seqs [Group 1 ident, Star space, Chr 58]"

text \<open>\<^verbatim>\<open>pust'\s+(ident)\s*=\<close> with the Cyrillic keyword.\<close>

definition letPattern :: rx where
  "letPattern =
     seqs [lit [1087, 1091, 1089, 1090, 1100], plus space, Group 1 ident, Star space, Chr 61]"

text \<open>\<^verbatim>\<open>(ident)\s*=\s*[^=]\<close>.\<close>

definition assignPattern :: rx where
  "assignPattern = seqs [Group 1 ident, Star space, Chr 61, Star space, Cls (\<lambda>c. c \<noteq> 61)]"

text \<open>\<^verbatim>\<open>(ident)\s*\(\<close>.\<close>

definition functionCallPattern :: rx where
  "functionCallPattern = seqs [Group 1 ident, Star space, Chr 40]"

section \<open>The static lexical pass\<close>

text \<open>
  The name sets of the source are \<^verbatim>\<open>HashSet<String>\<close> objects. A set is modelled by the
  list of its elements (\<open>List.insert\<close> is \<^verbatim>\<open>add\<close>, membership in \<open>set\<close> is \<^verbatim>\<open>contains\<close>);
  the order of the list stands for the order in which the hash table holds them, which
  the code never reads.
\<close>

type_synonym jmatch = "nat \<times> nat \<times> caps"

definition mstart :: "jmatch \<Rightarrow> nat" where
  "mstart m = fst m"

definition mend :: "jmatch \<Rightarrow> nat" where
  "mend m = fst (snd m)"

text \<open>\<^verbatim>\<open>matcher.group(g)\<close> and \<^verbatim>\<open>matcher.group()\<close> of a match in \<open>s\<close>.\<close>

definition mgroup :: "jstring \<Rightarrow> jmatch \<Rightarrow> nat \<Rightarrow> jstring" where
  "mgroup s m g = groupText s (snd (snd m)) g"

definition mtext :: "jstring \<Rightarrow> jmatch \<Rightarrow> jstring" where
  "mtext s m = substring s (mstart m) (mend m)"

text \<open>The two loops that \<^verbatim>\<open>extractFunctionNamesAndParameters\<close> and
  \<^verbatim>\<open>analyzeGlobalContextAwareIdentifiers\<close> share: the names after the function keyword,
  and the names before a colon inside a parenthesised section.\<close>

definition functionNamesIn :: "(jstring \<Rightarrow> nat \<Rightarrow> bool) \<Rightarrow> jstring \<Rightarrow> jstring list" where
  "functionNamesIn wb line = map (\<lambda>m. mgroup line m 1) (findAll wb functionPattern line 0)"

definition parameterNamesIn :: "(jstring \<Rightarrow> nat \<Rightarrow> bool) \<Rightarrow> jstring \<Rightarrow> jstring list" where
  "parameterNamesIn wb line =
     concat (map (\<lambda>m. let paramSection = mgroup line m 1
                      in map (\<lambda>p. mgroup paramSection p 1)
                             (findAll wb individualParamPattern paramSection 0))
                 (findAll wb paramPattern line 0))"

definition extractFunctionNamesAndParameters ::
  "(jstring \<Rightarrow> nat \<Rightarrow> bool) \<Rightarrow> jstring \<Rightarrow> jstring list \<times> jstring list
     \<Rightarrow> jstring list \<times> jstring list" where
  "extractFunctionNamesAndParameters wb line sets =
     (fold List.insert (functionNamesIn wb line) (fst sets),
      fold List.insert (parameterNamesIn wb line) (snd sets))"

definition variableNamesIn :: "(jstring \<Rightarrow> nat \<Rightarrow> bool) \<Rightarrow> jstring \<Rightarrow> jstring list" where
  "variableNamesIn wb line =
     map (\<lambda>m. mgroup line m 1) (findAll wb letPattern line 0) @
     filter (\<lambda>variableName. variableName \<notin> set TRIVIL_KEYWORDS \<and> variableName \<notin> set BUILT_IN_TYPES)
            (map (\<lambda>m. mgroup line m 1) (findAll wb assignPattern line 0))"

definition extractVariableNames :: "(jstring \<Rightarrow> nat \<Rightarrow> bool) \<Rightarrow> jstring list \<Rightarrow> jstring list" where
  "extractVariableNames wb lines =
     fold (\<lambda>line variableNames. fold List.insert (variableNamesIn wb line) variableNames) lines []"

definition classifyIdentifier :: "jstring \<Rightarrow> jstring" where
  "classifyIdentifier token =
     (if token \<in> set TRIVIL_KEYWORDS then jstr ''KEYWORD''
      else if token \<in> set BUILT_IN_TYPES then jstr ''BUILT_IN_TYPE''
      else if token \<in> set BUILT_IN_FUNCTIONS then jstr ''BUILT_IN_FUNCTION''
      else jstr ''IDENTIFIER'')"

definition isInStringLiteral :: "nat \<Rightarrow> (nat \<times> nat) list \<Rightarrow> bool" where
  "isInStringLiteral position stringRanges =
     list_ex (\<lambda>range. fst range \<le> position \<and> position < snd range) stringRanges"

definition analyzeGlobalContextAwareIdentifiers ::
  "(jstring \<Rightarrow> nat \<Rightarrow> bool) \<Rightarrow> jstring \<Rightarrow> nat \<Rightarrow> (nat \<times> nat) list
     \<Rightarrow> jstring list \<Rightarrow> jstring list \<Rightarrow> jstring list \<Rightarrow> SyntaxToken list" where
  "analyzeGlobalContextAwareIdentifiers wb line lineNum stringRanges
       globalFunctionNames globalParameterNames globalVariableNames =
     (let localFunctionNames = fold List.insert (functionNamesIn wb line) [];
          localParameterNames = fold List.insert (parameterNamesIn wb line) [];
          functionCalls =
            fold List.insert
              (filter (\<lambda>potentialFunction. potentialFunction \<in> set globalFunctionNames \<or>
                                          potentialFunction \<in> set localFunctionNames)
                      (map (\<lambda>m. mgroup line m 1) (findAll wb functionCallPattern line 0)))
              []
      in map (\<lambda>m.
               (let token = mtext line m;
                    ty = (if token \<in> set localFunctionNames \<or> token \<in> set globalFunctionNames \<or>
                             token \<in> set functionCalls
                          then jstr ''function.user''
                          else if token \<in> set localParameterNames \<or> token \<in> set globalParameterNames
                          then jstr ''variable.parameter''
                          else if token \<in> set globalVariableNames
                          then jstr ''variable.user''
                          else classifyIdentifier token)
                in newSyntaxToken lineNum (mstart m) lineNum (mend m) ty token None))
             (filter (\<lambda>m. \<not> isInStringLiteral (mstart m) stringRanges)
                     (findAll wb IDENTIFIER_PATTERN line 0)))"

definition analyzeLineTokensWithGlobalContext ::
  "(jstring \<Rightarrow> nat \<Rightarrow> bool) \<Rightarrow> jstring \<Rightarrow> nat
     \<Rightarrow> jstring list \<Rightarrow> jstring list \<Rightarrow> jstring list \<Rightarrow> SyntaxToken list" where
  "analyzeLineTokensWithGlobalContext wb line0 lineNum
       globalFunctionNames globalParameterNames globalVariableNames =
     (let commentMatch = rfind wb COMMENT_PATTERN line0 0;
          commentTokens =
            (case commentMatch of
               None \<Rightarrow> []
             | Some m \<Rightarrow> [newSyntaxToken lineNum (mstart m) lineNum (length line0)
                            (jstr ''COMMENT'') (mtext line0 m) None]);
          line = (case commentMatch of
                    None \<Rightarrow> line0
                  | Some m \<Rightarrow> substring line0 0 (mstart m));
          stringMatches = findAll wb STRING_PATTERN line 0;
          stringRanges = map (\<lambda>m. (mstart m, mend m)) stringMatches;
          stringTokens =
            map (\<lambda>m. newSyntaxToken lineNum (mstart m) lineNum (mend m)
                       (jstr ''STRING_LITERAL'') (mtext line m) None)
                stringMatches;
          numberTokens =
            map (\<lambda>m. newSyntaxToken lineNum (mstart m) lineNum (mend m)
                       (jstr ''NUMBER_LITERAL'') (mtext line m) None)
                (filter (\<lambda>m. \<not> isInStringLiteral (mstart m) stringRanges)
                        (findAll wb NUMBER_PATTERN line 0));
          identifierTokens =
            analyzeGlobalContextAwareIdentifiers wb line lineNum stringRanges
              globalFunctionNames globalParameterNames globalVariableNames;
          operatorTokens =
            map (\<lambda>m. newSyntaxToken lineNum (mstart m) lineNum (mend m)
                       (jstr ''OPERATOR'') (mtext line m) None)
                (filter (\<lambda>m. \<not> isInStringLiteral (mstart m) stringRanges)
                        (findAll wb OPERATOR_PATTERN line 0))
      in commentTokens @ stringTokens @ numberTokens @ identifierTokens @ operatorTokens)"

text \<open>The second loop of \<^verbatim>\<open>performStaticLexicalAnalysis\<close>: the tokens of every line, in
  the order of the lines, each line read against the three name sets.\<close>

definition analyzeLines ::
  "(jstring \<Rightarrow> nat \<Rightarrow> bool) \<Rightarrow> jstring list
     \<Rightarrow> jstring list \<Rightarrow> jstring list \<Rightarrow> jstring list \<Rightarrow> SyntaxToken list" where
  "analyzeLines wb lines allFunctionNames allParameterNames allVariableNames =
     concat (map (\<lambda>lineNum. analyzeLineTokensWithGlobalContext wb (lines ! lineNum) lineNum
                               allFunctionNames allParameterNames allVariableNames)
                 [0 ..< length lines])"

definition performStaticLexicalAnalysis ::
  "(jstring \<Rightarrow> nat \<Rightarrow> bool) \<Rightarrow> jstring \<Rightarrow> SyntaxToken list" where
  "performStaticLexicalAnalysis wb sourceCode =
     (let lines = split sourceCode [10];
          sets = fold (extractFunctionNamesAndParameters wb) lines ([], []);
          allVariableNames = extractVariableNames wb lines
      in analyzeLines wb lines (fst sets) (snd sets) allVariableNames)"

section \<open>The world of the services: configuration, directory, processes, events\<close>

text \<open>\<^verbatim>\<open>TrivilCompilerProperties\<close>. The four numbers are validated \<^verbatim>\<open>@Positive\<close> when the
  configuration is bound, so they are natural numbers here.\<close>

record TrivilCompilerProperties =
  compilerPath :: jstring
  tempDirectory :: jstring
  compilationTimeoutMs :: nat
  executionTimeoutMs :: nat
  maxSourceCodeLength :: nat
  maxOutputLength :: nat

text \<open>
  The temporary directory is the list of its entries, in the order in which
  \<^verbatim>\<open>Files.list\<close> yields them. \<^verbatim>\<open>Files.deleteIfExists\<close> removes a regular file or an empty
  directory and throws on a directory that still has entries. File contents are not
  modelled: what a process does is given by the environment.
\<close>

datatype kind = RegularFile | EmptyDirectory | NonEmptyDirectory

text \<open>What the services do to the outside, in program order: the calls of \<^verbatim>\<open>Files\<close>, of
  \<^verbatim>\<open>ProcessBuilder.start\<close>, \<^verbatim>\<open>Process.waitFor\<close> and \<^verbatim>\<open>destroyForcibly\<close>, the reading of a
  process's output after its exit (\<open>ReadOutput\<close>) or through a task started with
  \<^verbatim>\<open>CompletableFuture.supplyAsync\<close> (\<open>DrainStart\<close>, and \<open>DrainGet\<close> for the \<^verbatim>\<open>get\<close> of its
  result), and the operations on the registry: \<^verbatim>\<open>put\<close>, the sweep with the ids it dropped,
  \<^verbatim>\<open>remove\<close> with whether it found an entry. A process is named by its command line, a
  registry entry by its process id, a file of the temporary directory by its file name.\<close>

datatype event =
    CreateDirectories jstring
  | ListDirectory jstring
  | DeleteIfExists jstring
  | WriteString jstring
  | WalkAndDelete jstring
  | ProcessStart "jstring list"
  | RegistryPut jstring
  | DrainStart "jstring list"
  | WaitFor "jstring list" nat
  | DestroyForcibly "jstring list"
  | ReadOutput "jstring list"
  | DrainGet "jstring list"
  | RegistrySweep "jstring list"
  | RegistryRemove jstring bool

record world =
  dirExists :: bool
  entries :: "(jstring \<times> kind) list"
  trace :: "event list"

definition emit :: "event \<Rightarrow> world \<Rightarrow> world" where
  "emit e w = w\<lparr>trace := trace w @ [e]\<rparr>"

definition filesExists :: "world \<Rightarrow> jstring \<Rightarrow> bool" where
  "filesExists w fileName \<longleftrightarrow> dirExists w \<and> fileName \<in> fst ` set (entries w)"

definition isRegularFile :: "world \<Rightarrow> jstring \<Rightarrow> bool" where
  "isRegularFile w fileName \<longleftrightarrow> dirExists w \<and> (fileName, RegularFile) \<in> set (entries w)"

text \<open>\<^verbatim>\<open>Files.deleteIfExists\<close>: the flag says that it threw an \<^verbatim>\<open>IOException\<close>.\<close>

definition deleteIfExists :: "jstring \<Rightarrow> world \<Rightarrow> bool \<times> world" where
  "deleteIfExists fileName w =
     (let w1 = emit (DeleteIfExists fileName) w
      in if (fileName, NonEmptyDirectory) \<in> set (entries w1) then (True, w1)
         else (False, w1\<lparr>entries := filter (\<lambda>e. fst e \<noteq> fileName) (entries w1)\<rparr>))"

text \<open>A file that a process or a write leaves in the directory.\<close>

definition addEntry :: "jstring \<times> kind \<Rightarrow> world \<Rightarrow> world" where
  "addEntry e w =
     (if fst e \<in> fst ` set (entries w) then w else w\<lparr>entries := entries w @ [e]\<rparr>)"

text \<open>
  How a spawned process behaves is not the program's doing; the environment gives it:
  \<^verbatim>\<open>ProcessBuilder.start\<close> throws an \<^verbatim>\<open>IOException\<close>, or the wait is interrupted, or the
  process is still running when the bounded wait ends, or it exits in time with an exit
  code, having written a text to its merged output (which may then fail to be read).
  \<open>leaves\<close> are the entries a started process adds to the directory.
\<close>

datatype outcome =
    StartFails jstring
  | WaitInterrupted jstring
  | NoExit
  | Exits int jstring
  | ExitsUnreadable int jstring

record behaviour =
  outcome :: outcome
  leaves :: "(jstring \<times> kind) list"

section \<open>\<^verbatim>\<open>CompileResponse\<close>\<close>

record CompileResponse =
  success :: bool
  outputText :: "jstring option"
  error :: "jstring option"
  executionTimeMs :: "64 word option"
  resultType :: jstring

definition CompileResponse_success :: "jstring \<Rightarrow> 64 word \<Rightarrow> CompileResponse" where
  "CompileResponse_success out ms =
     \<lparr>success = True, outputText = Some out, error = None, executionTimeMs = Some ms,
      resultType = jstr ''success''\<rparr>"

definition CompileResponse_compilationError :: "jstring \<Rightarrow> CompileResponse" where
  "CompileResponse_compilationError err =
     \<lparr>success = False, outputText = None, error = Some err, executionTimeMs = None,
      resultType = jstr ''compilation_error''\<rparr>"

definition CompileResponse_runtimeError :: "jstring \<Rightarrow> 64 word \<Rightarrow> CompileResponse" where
  "CompileResponse_runtimeError err ms =
     \<lparr>success = False, outputText = None, error = Some err, executionTimeMs = Some ms,
      resultType = jstr ''runtime_error''\<rparr>"

definition CompileResponse_timeout :: "jstring \<Rightarrow> CompileResponse" where
  "CompileResponse_timeout message =
     \<lparr>success = False, outputText = None, error = Some message, executionTimeMs = None,
      resultType = jstr ''timeout''\<rparr>"

section \<open>\<^verbatim>\<open>TrivilCompilerService\<close>\<close>

text \<open>
  What one call of \<^verbatim>\<open>compileAndExecute\<close> reads from outside: the first eight characters of
  a fresh UUID, the two readings of the clock, whether creating the directory, listing it
  or writing the source file fails, and how the compiler (on a source text) and a compiled
  program (by its file name) behave.
\<close>

record env =
  uuid8 :: jstring
  clockStart :: "64 word"
  clockEnd :: "64 word"
  createDirectoriesFails :: "jstring option"
  listFails :: bool
  writeFails :: "jstring option"
  compiler :: "jstring \<Rightarrow> behaviour"
  program :: "jstring \<Rightarrow> behaviour"

datatype exn = CompilationException jstring | ExecutionException jstring | IOException jstring

datatype CompileResult = CompileResult bool jstring

datatype ExecutionResult = ExecutionResult bool jstring

text \<open>\<^verbatim>\<open>BufferedReader.readLine\<close> until the end: a line ends at \<^verbatim>\<open>\n\<close>, \<^verbatim>\<open>\r\<close> or \<^verbatim>\<open>\r\n\<close>;
  characters after the last terminator are a line of their own.\<close>

function readLines :: "jstring \<Rightarrow> jstring \<Rightarrow> jstring list" where
  "readLines acc [] = (if acc = [] then [] else [acc])"
| "readLines acc (c # cs) =
     (if c = 10 then acc # readLines [] cs
      else if c = 13 then acc # readLines [] (if cs \<noteq> [] \<and> hd cs = 10 then tl cs else cs)
      else readLines (acc @ [c]) cs)"
  by pat_completeness auto
termination
  by (relation "measure (\<lambda>(acc, s). length s)") auto

definition readProcessOutput :: "jstring \<Rightarrow> jstring" where
  "readProcessOutput stream = trim (concat (map (\<lambda>line. line @ [10]) (readLines [] stream)))"

text \<open>\<^verbatim>\<open>\.tri$\<close>, and \<^verbatim>\<open>fileName.replaceFirst("\\.tri$", "")\<close>.\<close>

definition triPattern :: rx where
  "triPattern = seqs [Chr 46, Chr 116, Chr 114, Chr 105, Dollar False]"

definition baseNameOf :: "jstring \<Rightarrow> jstring" where
  "baseNameOf fileName = replaceFirst (\<lambda>s i. False) triPattern fileName []"

definition resolve :: "jstring \<Rightarrow> jstring \<Rightarrow> jstring" where
  "resolve dir fileName = dir @ [47] @ fileName"

text \<open>The marker of a clean compile, \<^verbatim>\<open>Bez oshibok\<close> (without errors).\<close>

definition noErrorsMarker :: jstring where
  "noErrorsMarker = [1041, 1077, 1079, 32, 1086, 1096, 1080, 1073, 1086, 1082]"

definition executableExists :: "world \<Rightarrow> jstring \<Rightarrow> bool" where
  "executableExists w baseName \<longleftrightarrow>
     filesExists w baseName \<or> filesExists w (baseName @ jstr ''.exe'') \<or>
     filesExists w (jstr ''privet'') \<or> filesExists w (jstr ''privet.exe'') \<or>
     filesExists w (jstr ''a.out'')"

definition compileSource ::
  "TrivilCompilerProperties \<Rightarrow> behaviour \<Rightarrow> jstring \<Rightarrow> world \<Rightarrow> (exn + CompileResult) \<times> world" where
  "compileSource props b sourceFileName w0 =
     (let cmd = [compilerPath props, sourceFileName];
          w1 = emit (ProcessStart cmd) w0;
          w2 = emit (WaitFor cmd (compilationTimeoutMs props)) (fold addEntry (leaves b) w1)
      in case outcome b of
           StartFails msg \<Rightarrow>
             (Inl (CompilationException (jstr ''Failed to execute compiler: '' @ msg)), w1)
         | WaitInterrupted msg \<Rightarrow>
             (Inl (CompilationException (jstr ''Failed to execute compiler: '' @ msg)), w2)
         | NoExit \<Rightarrow>
             (Inl (CompilationException (jstr ''Compilation timeout exceeded'')),
              emit (DestroyForcibly cmd) w2)
         | ExitsUnreadable exitCode msg \<Rightarrow>
             (Inl (CompilationException (jstr ''Failed to execute compiler: '' @ msg)),
              emit (ReadOutput cmd) w2)
         | Exits exitCode stream \<Rightarrow>
             (let w3 = emit (ReadOutput cmd) w2;
                  out = readProcessOutput stream;
                  baseName = baseNameOf sourceFileName;
                  w4 = emit (ListDirectory (tempDirectory props)) w3;
                  compilationSuccessful =
                    (exitCode = 0 \<and> (contains out noErrorsMarker \<or> executableExists w4 baseName))
              in (Inr (CompileResult compilationSuccessful out), w4)))"

text \<open>The filter of the directory scan in \<^verbatim>\<open>executeProgram\<close>.\<close>

definition scanAccepts :: "world \<Rightarrow> jstring \<Rightarrow> jstring \<Rightarrow> bool" where
  "scanAccepts w sourceFileName fileName \<longleftrightarrow>
     (endsWith fileName (jstr ''.exe'') \<or>
      (\<not> contains fileName (jstr ''.'') \<and> \<not> startsWith fileName (jstr ''_'') \<and>
       fileName \<noteq> jstr ''api_test.json'')) \<and>
     isRegularFile w fileName \<and> fileName \<noteq> sourceFileName"

definition truncateOutput :: "TrivilCompilerProperties \<Rightarrow> jstring \<Rightarrow> jstring" where
  "truncateOutput props out =
     (if length out > maxOutputLength props
      then substring out 0 (maxOutputLength props) @ [10] @ jstr ''... (output truncated)''
      else out)"

definition executeProgram ::
  "TrivilCompilerProperties \<Rightarrow> env \<Rightarrow> jstring \<Rightarrow> world \<Rightarrow> (exn + ExecutionResult) \<times> world" where
  "executeProgram props en sourceFileName w0 =
     (let baseName = baseNameOf sourceFileName;
          possibleExecutables = [baseName @ jstr ''.exe'', baseName];
          found = find (filesExists w0) possibleExecutables;
          w1 = (if found = None then emit (ListDirectory (tempDirectory props)) w0 else w0);
          executable =
            (if found \<noteq> None then found
             else if listFails en then None
             else find (scanAccepts w1 sourceFileName) (map fst (entries w1)))
      in case executable of
           None \<Rightarrow>
             (Inl (ExecutionException
                    (jstr ''Compiled executable not found. Compilation may have failed silently.'')),
              emit (ListDirectory (tempDirectory props)) w1)
         | Some exe \<Rightarrow>
             (let cmd = [resolve (tempDirectory props) exe];
                  b = program en exe;
                  w2 = emit (ProcessStart cmd) w1;
                  w3 = emit (WaitFor cmd (executionTimeoutMs props)) (fold addEntry (leaves b) w2)
              in case outcome b of
                   StartFails msg \<Rightarrow>
                     (Inl (ExecutionException (jstr ''Failed to execute program: '' @ msg)), w2)
                 | WaitInterrupted msg \<Rightarrow>
                     (Inl (ExecutionException (jstr ''Failed to execute program: '' @ msg)), w3)
                 | NoExit \<Rightarrow>
                     (Inr (ExecutionResult False (jstr ''Program execution timeout exceeded'')),
                      emit (DestroyForcibly cmd) w3)
                 | ExitsUnreadable exitCode msg \<Rightarrow>
                     (Inl (ExecutionException (jstr ''Failed to execute program: '' @ msg)),
                      emit (ReadOutput cmd) w3)
                 | Exits exitCode stream \<Rightarrow>
                     (Inr (ExecutionResult (exitCode = 0)
                            (truncateOutput props (readProcessOutput stream))),
                      emit (ReadOutput cmd) w3)))"

text \<open>The filter of \<^verbatim>\<open>cleanupAllTempFiles\<close>.\<close>

definition isTempFileName :: "jstring \<Rightarrow> bool" where
  "isTempFileName fileName \<longleftrightarrow>
     endsWith fileName (jstr ''.tri'') \<or> endsWith fileName (jstr ''.exe'') \<or>
     startsWith fileName (jstr ''temp_'') \<or> fileName = jstr ''privet'' \<or>
     fileName = jstr ''a.out'' \<or> fileName = jstr ''main''"

definition cleanupAllTempFiles :: "TrivilCompilerProperties \<Rightarrow> env \<Rightarrow> world \<Rightarrow> world" where
  "cleanupAllTempFiles props en w =
     (if \<not> dirExists w then w
      else let w1 = emit (ListDirectory (tempDirectory props)) w
           in if listFails en then w1
              else fold (\<lambda>fileName v. snd (deleteIfExists fileName v))
                        (filter isTempFileName (map fst (entries w1))) w1)"

text \<open>One round of the loop of \<^verbatim>\<open>cleanupFiles\<close>; an \<^verbatim>\<open>IOException\<close> ends the round.\<close>

definition cleanupFile :: "jstring \<Rightarrow> world \<Rightarrow> world" where
  "cleanupFile fileName w =
     (if \<not> filesExists w fileName then w
      else if endsWith fileName (jstr ''.tri'') then
        (let baseName = baseNameOf fileName;
             d1 = deleteIfExists fileName w
         in if fst d1 then snd d1
            else let d2 = deleteIfExists baseName (snd d1)
                 in if fst d2 then snd d2
                    else snd (deleteIfExists (baseName @ jstr ''.exe'') (snd d2)))
      else snd (deleteIfExists fileName w))"

definition cleanupFiles :: "jstring list \<Rightarrow> world \<Rightarrow> world" where
  "cleanupFiles files w = fold cleanupFile files w"

text \<open>The \<^verbatim>\<open>try\<close> block of \<^verbatim>\<open>compileAndExecute\<close>, in two parts. First the directory is
  created, swept by \<^verbatim>\<open>cleanupAllTempFiles\<close> and the source file written; an
  \<^verbatim>\<open>IOException\<close> of the first or the last step leaves the block.\<close>

definition prepareSourceFile ::
  "TrivilCompilerProperties \<Rightarrow> env \<Rightarrow> jstring \<Rightarrow> world \<Rightarrow> exn option \<times> world" where
  "prepareSourceFile props en sourceFileName w0 =
     (let w1 = emit (CreateDirectories (tempDirectory props)) w0
      in case createDirectoriesFails en of
           Some msg \<Rightarrow> (Some (IOException msg), w1)
         | None \<Rightarrow>
             (let w2 = cleanupAllTempFiles props en (w1\<lparr>dirExists := True\<rparr>);
                  w3 = emit (WriteString sourceFileName) w2
              in case writeFails en of
                   Some msg \<Rightarrow> (Some (IOException msg), w3)
                 | None \<Rightarrow> (None, addEntry (sourceFileName, RegularFile) w3)))"

text \<open>Then the source is compiled and, when the compile is reported successful, the
  program is run and the elapsed time taken.\<close>

definition compileAndExecuteBody ::
  "TrivilCompilerProperties \<Rightarrow> env \<Rightarrow> jstring \<Rightarrow> jstring \<Rightarrow> world
     \<Rightarrow> (exn + CompileResponse) \<times> world" where
  "compileAndExecuteBody props en sourceCode sourceFileName w0 =
     (case prepareSourceFile props en sourceFileName w0 of
        (Some e, w3) \<Rightarrow> (Inl e, w3)
      | (None, w3) \<Rightarrow>
          (case compileSource props (compiler en sourceCode) sourceFileName w3 of
             (Inl e, w4) \<Rightarrow> (Inl e, w4)
           | (Inr (CompileResult compiled out), w4) \<Rightarrow>
               if \<not> compiled then (Inr (CompileResponse_compilationError out), w4)
               else (case executeProgram props en sourceFileName w4 of
                       (Inl e, w5) \<Rightarrow> (Inl e, w5)
                     | (Inr (ExecutionResult ok res), w5) \<Rightarrow>
                         (let executionTime = clockEnd en - clockStart en
                          in (Inr (if ok then CompileResponse_success res executionTime
                                   else CompileResponse_runtimeError res executionTime),
                              w5)))))"

definition compileAndExecute ::
  "TrivilCompilerProperties \<Rightarrow> env \<Rightarrow> jstring option \<Rightarrow> world \<Rightarrow> CompileResponse \<times> world" where
  "compileAndExecute props en sourceCode w =
     (case sourceCode of
        None \<Rightarrow> (CompileResponse_compilationError (jstr ''Source code cannot be empty''), w)
      | Some src \<Rightarrow>
          if trim src = [] then
            (CompileResponse_compilationError (jstr ''Source code cannot be empty''), w)
          else if length src > maxSourceCodeLength props then
            (CompileResponse_compilationError
               (jstr ''Source code exceeds maximum length of '' @
                digitsOf (maxSourceCodeLength props) @ jstr '' characters''), w)
          else
            (let sessionId = uuid8 en;
                 sourceFileName = jstr ''temp_'' @ sessionId @ jstr ''.tri'';
                 executableName = jstr ''temp_'' @ sessionId;
                 r = compileAndExecuteBody props en src sourceFileName w;
                 response =
                   (case fst r of
                      Inr resp \<Rightarrow> resp
                    | Inl (CompilationException msg) \<Rightarrow> CompileResponse_compilationError msg
                    | Inl (ExecutionException msg) \<Rightarrow>
                        CompileResponse_runtimeError msg (clockEnd en - clockStart en)
                    | Inl (IOException msg) \<Rightarrow>
                        CompileResponse_compilationError (jstr ''Internal server error: '' @ msg))
             in (response, cleanupFiles [sourceFileName, executableName] (snd r))))"

section \<open>\<^verbatim>\<open>TrivilSyntaxAnalysisService\<close>: wrapping, the process registry, the compiler tool\<close>

text \<open>\<^verbatim>\<open>s.replaceAll(target, replacement)\<close> for a pattern that is a literal, non-empty text
  and a replacement without group references: the occurrences found from left to right
  are replaced.\<close>

function replaceAllLiteral :: "jstring \<Rightarrow> jstring \<Rightarrow> jstring \<Rightarrow> jstring" where
  "replaceAllLiteral target repl [] = []"
| "replaceAllLiteral target repl (x # xs) =
     (if target \<noteq> [] \<and> prefix target (x # xs)
      then repl @ replaceAllLiteral target repl (drop (length target) (x # xs))
      else x # replaceAllLiteral target repl xs)"
  by pat_completeness auto
termination
  by (relation "measure (\<lambda>(target, repl, s). length s)") auto

text \<open>\<^verbatim>\<open>sanitizeInput\<close> (of a text that is not null): NUL characters removed, then \<^verbatim>\<open>\r\n\<close>
  and then \<^verbatim>\<open>\r\<close> turned into \<^verbatim>\<open>\n\<close>.\<close>

definition sanitizeInput :: "jstring \<Rightarrow> jstring" where
  "sanitizeInput input =
     replaceAllLiteral [13] [10] (replaceAllLiteral [13, 10] [10] (replaceAllLiteral [0] [] input))"

text \<open>The module keyword \<^verbatim>\<open>modul'\<close>, the first entry of \<^verbatim>\<open>TRIVIL_KEYWORDS\<close>; the literal that
  \<^verbatim>\<open>wrapInTrivilModule\<close> tests for and writes, which is the keyword followed by one space
  (U+0020); and the three facility names \<^verbatim>\<open>vyvod\<close>, \<^verbatim>\<open>vvod\<close>, \<^verbatim>\<open>fayl\<close> with their import lines
  \<^verbatim>\<open>import "std::vyvod"\<close> and so on (all Cyrillic in the source).\<close>

definition moduleKeyword :: jstring where
  "moduleKeyword = [1084, 1086, 1076, 1091, 1083, 1100]"

definition modulePrefix :: jstring where
  "modulePrefix = moduleKeyword @ [32]"

definition importLine :: "jstring \<Rightarrow> jstring" where
  "importLine facility =
     [1080, 1084, 1087, 1086, 1088, 1090, 32, 34, 1089, 1090, 1076, 58, 58] @ facility @
     [34, 10, 10]"

definition facilityVyvod :: jstring where
  "facilityVyvod = [1074, 1099, 1074, 1086, 1076]"

definition facilityVvod :: jstring where
  "facilityVvod = [1074, 1074, 1086, 1076]"

definition facilityFayl :: jstring where
  "facilityFayl = [1092, 1072, 1081, 1083]"

text \<open>\<^verbatim>\<open>wrapInTrivilModule\<close>; the first argument is the reading of
  \<^verbatim>\<open>System.currentTimeMillis()\<close>, a Java \<^verbatim>\<open>long\<close>, whose remainder by 10000 (with the sign
  of the dividend) names the module.\<close>

definition wrapInTrivilModule :: "64 word \<Rightarrow> jstring \<Rightarrow> jstring" where
  "wrapInTrivilModule now userCode =
     (if startsWith (trim userCode) modulePrefix then userCode
      else
        (let moduleName = jstr ''sample_'' @ longToString (sint now smod 10000)
         in modulePrefix @ moduleName @ [10, 10] @
            (if contains userCode facilityVyvod then importLine facilityVyvod else []) @
            (if contains userCode facilityVvod then importLine facilityVvod else []) @
            (if contains userCode facilityFayl then importLine facilityFayl else []) @
            userCode))"

text \<open>
  The registry \<^verbatim>\<open>activeProcesses\<close> maps a process id to a process. What the sweep does to
  an entry depends on what it observes of the process: it is gone (\<^verbatim>\<open>isAlive\<close> is false),
  or alive and not finished at the zero-length wait, or alive at the first test and
  finished at the second. An entry carries that observation.
\<close>

datatype pstatus = Gone | Stuck | Finishing

record service =
  activeProcesses :: "(jstring \<times> pstatus) list"
  processCounter :: "64 word"

definition registryPut :: "jstring \<Rightarrow> pstatus \<Rightarrow> (jstring \<times> pstatus) list \<Rightarrow> (jstring \<times> pstatus) list" where
  "registryPut pid st reg = filter (\<lambda>e. fst e \<noteq> pid) reg @ [(pid, st)]"

definition registryRemove :: "jstring \<Rightarrow> (jstring \<times> pstatus) list \<Rightarrow> (jstring \<times> pstatus) list" where
  "registryRemove pid reg = filter (\<lambda>e. fst e \<noteq> pid) reg"

definition registered :: "jstring \<Rightarrow> (jstring \<times> pstatus) list \<Rightarrow> bool" where
  "registered pid reg \<longleftrightarrow> pid \<in> fst ` set reg"

text \<open>\<^verbatim>\<open>cleanupZombieProcesses\<close>: \<^verbatim>\<open>removeIf\<close> drops the entries whose process is gone and
  those it kills because they are alive and not finished; it keeps the rest.\<close>

definition sweepRemoves :: "jstring \<times> pstatus \<Rightarrow> bool" where
  "sweepRemoves e \<longleftrightarrow> snd e = Gone \<or> snd e = Stuck"

definition cleanupZombieProcesses :: "service \<times> world \<Rightarrow> service \<times> world" where
  "cleanupZombieProcesses sw =
     (let reg = activeProcesses (fst sw)
      in ((fst sw)\<lparr>activeProcesses := filter (\<lambda>e. \<not> sweepRemoves e) reg\<rparr>,
          emit (RegistrySweep (map fst (filter sweepRemoves reg))) (snd sw)))"

text \<open>The \<^verbatim>\<open>finally\<close> block of \<^verbatim>\<open>runCompilerToolSafely\<close>: the id is removed from the registry
  (the event records whether an entry was there), and a process that was started and is
  still alive is destroyed.\<close>

definition finallyDeregister ::
  "jstring \<Rightarrow> jstring list \<Rightarrow> bool \<Rightarrow> service \<times> world \<Rightarrow> service \<times> world" where
  "finallyDeregister processId cmd stillAlive sw =
     (let reg = activeProcesses (fst sw);
          w1 = emit (RegistryRemove processId (registered processId reg)) (snd sw)
      in ((fst sw)\<lparr>activeProcesses := registryRemove processId reg\<rparr>,
          if stillAlive then emit (DestroyForcibly cmd) w1 else w1))"

text \<open>
  \<^verbatim>\<open>runCompilerToolSafely\<close>. \<open>b\<close> is the behaviour of the spawned compiler and \<open>afterKill\<close>
  what is observed of the process once it has been destroyed. The command starts with
  the compiler path (which the source makes absolute). A process that exits with a
  non-zero code is not a failure: its output is returned. A drain that fails yields the
  empty output.
\<close>

definition runCompilerToolSafely ::
  "TrivilCompilerProperties \<Rightarrow> behaviour \<Rightarrow> pstatus \<Rightarrow> jstring \<Rightarrow> jstring list
     \<Rightarrow> service \<times> world \<Rightarrow> (exn + jstring) \<times> service \<times> world" where
  "runCompilerToolSafely props b afterKill sourceFile args sw0 =
     (let counter = processCounter (fst sw0) + 1;
          processId = jstr ''compiler-'' @ longToString (sint counter);
          sv1 = (fst sw0)\<lparr>processCounter := counter\<rparr>;
          cmd = [compilerPath props] @ args @ [sourceFile];
          w1 = emit (ProcessStart cmd) (snd sw0);
          sv2 = sv1\<lparr>activeProcesses := registryPut processId Stuck (activeProcesses sv1)\<rparr>;
          w2 = emit (DrainStart cmd) (emit (RegistryPut processId) w1);
          w3 = emit (WaitFor cmd (compilationTimeoutMs props)) w2;
          killed = sv2\<lparr>activeProcesses := registryPut processId afterKill (activeProcesses sv2)\<rparr>
      in case outcome b of
           StartFails msg \<Rightarrow>
             (Inl (CompilationException (jstr ''Failed to run compiler tool: '' @ msg)),
              finallyDeregister processId cmd False (sv1, w1))
         | WaitInterrupted msg \<Rightarrow>
             (Inl (CompilationException (jstr ''Failed to run compiler tool: '' @ msg)),
              finallyDeregister processId cmd (afterKill = Stuck)
                (killed, emit (DestroyForcibly cmd) w3))
         | NoExit \<Rightarrow>
             (Inl (CompilationException
                    (jstr ''Compiler tool timed out after '' @
                     digitsOf (compilationTimeoutMs props) @ jstr ''ms'')),
              finallyDeregister processId cmd (afterKill = Stuck)
                (cleanupZombieProcesses (killed, emit (DestroyForcibly cmd) w3)))
         | Exits exitCode stream \<Rightarrow>
             (Inr stream, finallyDeregister processId cmd False (sv2, emit (DrainGet cmd) w3))
         | ExitsUnreadable exitCode msg \<Rightarrow>
             (Inr [], finallyDeregister processId cmd False (sv2, emit (DrainGet cmd) w3)))"

section \<open>The semantic pass: mining the AST dump\<close>

definition notQuote :: rx where
  "notQuote = Cls (\<lambda>c. c \<noteq> 34)"

text \<open>\<^verbatim>\<open>\(Module "([^"]+)"\<close>.\<close>

definition moduleNamePattern :: rx where
  "moduleNamePattern = seqs [lit (jstr ''(Module '' @ [34]), Group 1 (plus notQuote), Chr 34]"

text \<open>The prefixes \<^verbatim>\<open>std::\<close> (Cyrillic), \<^verbatim>\<open>sys::\<close>, \<^verbatim>\<open>runtime::\<close> and the names \<^verbatim>\<open>builtin\<close>,
  \<^verbatim>\<open>core\<close>, \<^verbatim>\<open>system\<close> mark the modules that are not the user's.\<close>

definition isUserModuleName :: "jstring \<Rightarrow> bool" where
  "isUserModuleName moduleName \<longleftrightarrow>
     \<not> startsWith moduleName [1089, 1090, 1076, 58, 58] \<and>
     \<not> startsWith moduleName (jstr ''sys::'') \<and>
     \<not> startsWith moduleName (jstr ''runtime::'') \<and>
     moduleName \<noteq> jstr ''builtin'' \<and> moduleName \<noteq> jstr ''core'' \<and>
     moduleName \<noteq> jstr ''system''"

text \<open>\<^verbatim>\<open>extractUserCodeFromAST\<close>: the four ways to find the user's module, each tried when
  the ones before it left the result empty. (The module name the source also extracts is
  only logged.)\<close>

definition userModuleBeforeExecute :: "jstring \<Rightarrow> jstring" where
  "userModuleBeforeExecute astOutput =
     (let executeIndex = lastIndexOf astOutput (jstr ''Execute:'')
      in if executeIndex > 0 then
           (let beforeExecute = trim (substring astOutput 0 (nat executeIndex));
                lastModuleStart = lastIndexOf beforeExecute (jstr ''(Module '' @ [34])
            in if lastModuleStart \<ge> 0
               then trim (substring astOutput (nat lastModuleStart) (nat executeIndex))
               else [])
         else [])"

definition userModuleWithEntryFn :: "jstring \<Rightarrow> jstring" where
  "userModuleWithEntryFn astOutput =
     (let entryFnIndex = indexOf astOutput (jstr ''(EntryFn'')
      in if entryFnIndex \<ge> 0 then
           (let beforeEntryFn = substring astOutput 0 (nat entryFnIndex);
                moduleStart = lastIndexOf beforeEntryFn (jstr ''(Module '' @ [34])
            in if moduleStart \<ge> 0 then
                 (let found = indexOfFrom astOutput (jstr ''Execute:'') (nat entryFnIndex);
                      moduleEnd = (if found < 0 then int (length astOutput) else found)
                  in trim (substring astOutput (nat moduleStart) (nat moduleEnd)))
               else [])
         else [])"

definition lastUserModule :: "(jstring \<Rightarrow> nat \<Rightarrow> bool) \<Rightarrow> jstring \<Rightarrow> jstring" where
  "lastUserModule wb astOutput =
     (case rev (filter (\<lambda>m. isUserModuleName (mgroup astOutput m 1))
                       (findAll wb moduleNamePattern astOutput 0)) of
        [] \<Rightarrow> []
      | m # _ \<Rightarrow>
          (let lastUserModuleIndex = mstart m;
               found = indexOfFrom astOutput (jstr ''Execute:'') lastUserModuleIndex;
               moduleEnd = (if found < 0 then int (length astOutput) else found)
           in trim (substring astOutput lastUserModuleIndex (nat moduleEnd))))"

definition extractUserCodeFromAST :: "(jstring \<Rightarrow> nat \<Rightarrow> bool) \<Rightarrow> jstring \<Rightarrow> jstring" where
  "extractUserCodeFromAST wb astOutput =
     (let m1 = userModuleBeforeExecute astOutput;
          m2 = (if m1 = [] then userModuleWithEntryFn astOutput else m1);
          m3 = (if m2 = [] then lastUserModule wb astOutput else m2)
      in if m3 = [] then substringFrom astOutput (length astOutput - 2000) else m3)"

text \<open>The text \<^verbatim>\<open>(Function "name" "functype"\<close> that several rules look for.\<close>

definition functionHeader :: "jstring \<Rightarrow> jstring" where
  "functionHeader name =
     jstr ''(Function '' @ [34] @ name @ [34, 32, 34] @ jstr ''functype'' @ [34]"

text \<open>\<^verbatim>\<open>\(Function "([^"]+)" "functype"(?!.*External)\<close>.\<close>

definition userFuncPattern :: rx where
  "userFuncPattern =
     seqs [lit (jstr ''(Function '' @ [34]), Group 1 (plus notQuote),
           lit ([34, 32, 34] @ jstr ''functype'' @ [34]),
           NotAhead (Seq (Star dot) (lit (jstr ''External'')))]"

text \<open>\<^verbatim>\<open>\(Import "([^"]+)"\<close>.\<close>

definition importPattern :: rx where
  "importPattern = seqs [lit (jstr ''(Import '' @ [34]), Group 1 (plus notQuote), Chr 34]"

text \<open>\<^verbatim>\<open>\(VarDecl "([^"]+)" "([^"]*?)"\<close>.\<close>

definition varDeclPattern :: rx where
  "varDeclPattern =
     seqs [lit (jstr ''(VarDecl '' @ [34]), Group 1 (plus notQuote), lit [34, 32, 34],
           Group 2 (Reluctant notQuote), Chr 34]"

text \<open>\<^verbatim>\<open>\(IdentExpr "[^"]+" "([^"]+)"\)\<close>.\<close>

definition identParamPattern :: rx where
  "identParamPattern =
     seqs [lit (jstr ''(IdentExpr '' @ [34]), plus notQuote, lit [34, 32, 34],
           Group 1 (plus notQuote), lit [34, 41]]"

text \<open>\<^verbatim>\<open>\(SelectorExpr "functype" "([^"]+)"\)\<close>.\<close>

definition selectorPattern :: rx where
  "selectorPattern =
     seqs [lit (jstr ''(SelectorExpr '' @ [34] @ jstr ''functype'' @ [34, 32, 34]),
           Group 1 (plus notQuote), lit [34, 41]]"

text \<open>\<^verbatim>\<open>\(CallExpr "net rezul'tata" \(IdentExpr "functype" RO "([^"]+)"\)\<close>, the quoted words
  (no result) in Cyrillic.\<close>

definition userCallPattern :: rx where
  "userCallPattern =
     seqs [lit (jstr ''(CallExpr '' @ [34] @
                [1085, 1077, 1090, 32, 1088, 1077, 1079, 1091, 1083, 1100, 1090, 1072, 1090, 1072] @
                [34] @ jstr '' (IdentExpr '' @ [34] @ jstr ''functype'' @ [34] @ jstr '' RO '' @ [34]),
           Group 1 (plus notQuote), lit [34, 41]]"

text \<open>\<^verbatim>\<open>\(Function "([^"]+)" "functype"[^\(]*External\<close>.\<close>

definition extFuncPattern :: rx where
  "extFuncPattern =
     seqs [lit (jstr ''(Function '' @ [34]), Group 1 (plus notQuote),
           lit ([34, 32, 34] @ jstr ''functype'' @ [34]),
           Star (Cls (\<lambda>c. c \<noteq> 40)), lit (jstr ''External'')]"

text \<open>\<^verbatim>\<open>\(IdentExpr\s+"[^"]*"\s+"([^"]+)"\)(?!\s*\))\<close>.\<close>

definition varUsagePattern :: rx where
  "varUsagePattern =
     seqs [lit (jstr ''(IdentExpr''), plus space, Chr 34, Star notQuote, Chr 34, plus space,
           Chr 34, Group 1 (plus notQuote), Chr 34, Chr 41,
           NotAhead (Seq (Star space) (Chr 41))]"

type_synonym semantics = "jstring \<rightharpoonup> jstring"

text \<open>The eight rules of \<^verbatim>\<open>parseASTForSemanticInfo\<close>, each a loop over the matches of its
  pattern that may add to the map. The names \<^verbatim>\<open>stroka\<close>, \<^verbatim>\<open>ks\<close>, \<^verbatim>\<open>tsel64\<close>, \<^verbatim>\<open>f\<close> excluded by
  the first rule are Cyrillic in the source.\<close>

definition mineUserFunctions :: "(jstring \<Rightarrow> nat \<Rightarrow> bool) \<Rightarrow> jstring \<Rightarrow> semantics \<Rightarrow> semantics" where
  "mineUserFunctions wb userCodeSection semInfo =
     fold (\<lambda>m info.
             (let functionName = mgroup userCodeSection m 1
              in if \<not> startsWith functionName (jstr ''tri_'') \<and>
                    \<not> startsWith functionName (jstr ''sysapi_'') \<and>
                    functionName \<noteq> [1089, 1090, 1088, 1086, 1082, 1072] \<and>
                    functionName \<noteq> [1082, 1089] \<and>
                    functionName \<noteq> [1094, 1077, 1083, 54, 52] \<and>
                    functionName \<noteq> [1092] \<and> length functionName > 1
                 then info(functionName \<mapsto> jstr ''USER_FUNCTION'') else info))
          (findAll wb userFuncPattern userCodeSection 0) semInfo"

definition mineImports :: "(jstring \<Rightarrow> nat \<Rightarrow> bool) \<Rightarrow> jstring \<Rightarrow> semantics \<Rightarrow> semantics" where
  "mineImports wb userCodeSection semInfo =
     fold (\<lambda>m info.
             (let importPath = mgroup userCodeSection m 1;
                  parts = split importPath (jstr ''::'')
              in if length parts > 1
                 then info(last parts \<mapsto> jstr ''IMPORTED_CLASS:'' @ importPath) else info))
          (findAll wb importPattern userCodeSection 0) semInfo"

definition mineVarDecls :: "(jstring \<Rightarrow> nat \<Rightarrow> bool) \<Rightarrow> jstring \<Rightarrow> semantics \<Rightarrow> semantics" where
  "mineVarDecls wb userCodeSection semInfo =
     fold (\<lambda>m info.
             (let varName = mgroup userCodeSection m 1;
                  varType = mgroup userCodeSection m 2
              in if varName \<notin> set TRIVIL_KEYWORDS \<and> length varName > 1
                 then info(varName \<mapsto> jstr ''USER_VARIABLE:'' @ varType) else info))
          (findAll wb varDeclPattern userCodeSection 0) semInfo"

text \<open>\<open>isLetter\<close> is \<^verbatim>\<open>Character.isLetter\<close>, a table of the JDK. The rule carries the set
  \<^verbatim>\<open>foundParams\<close> beside the map.\<close>

definition mineParameters ::
  "(jstring \<Rightarrow> nat \<Rightarrow> bool) \<Rightarrow> (jchar \<Rightarrow> bool) \<Rightarrow> jstring \<Rightarrow> semantics \<Rightarrow> semantics" where
  "mineParameters wb isLetter userCodeSection semInfo =
     fst (fold (\<lambda>m st.
             (let info = fst st;
                  foundParams = snd st;
                  paramName = mgroup userCodeSection m 1
              in if paramName \<notin> set TRIVIL_KEYWORDS \<and> paramName \<notin> set BUILT_IN_TYPES \<and>
                    info paramName = None \<and> paramName \<noteq> jstr ''RO'' \<and>
                    length paramName \<ge> 1 \<and> length paramName \<le> 10 \<and>
                    isLetter (hd paramName) \<and> paramName \<notin> set foundParams \<and>
                    \<not> contains (substring userCodeSection 0 (mstart m)) (functionHeader paramName)
                 then (info(paramName \<mapsto> jstr ''FUNCTION_PARAMETER''),
                       List.insert paramName foundParams)
                 else st))
          (findAll wb identParamPattern userCodeSection 0) (semInfo, []))"

definition mineSelectors :: "(jstring \<Rightarrow> nat \<Rightarrow> bool) \<Rightarrow> jstring \<Rightarrow> semantics \<Rightarrow> semantics" where
  "mineSelectors wb userCodeSection semInfo =
     fold (\<lambda>m info.
             (let methodName = mgroup userCodeSection m 1
              in if info methodName = None \<and> methodName \<notin> set TRIVIL_KEYWORDS
                 then info(methodName \<mapsto> jstr ''IMPORTED_METHOD'') else info))
          (findAll wb selectorPattern userCodeSection 0) semInfo"

definition mineUserCalls :: "(jstring \<Rightarrow> nat \<Rightarrow> bool) \<Rightarrow> jstring \<Rightarrow> semantics \<Rightarrow> semantics" where
  "mineUserCalls wb userCodeSection semInfo =
     fold (\<lambda>m info.
             (let calledFunc = mgroup userCodeSection m 1
              in if info calledFunc = None \<and> \<not> startsWith calledFunc (jstr ''std'') \<and>
                    length calledFunc > 1 \<and> calledFunc \<notin> set TRIVIL_KEYWORDS \<and>
                    contains userCodeSection (functionHeader calledFunc)
                 then info(calledFunc \<mapsto> jstr ''USER_FUNCTION'') else info))
          (findAll wb userCallPattern userCodeSection 0) semInfo"

definition mineExternalFunctions :: "(jstring \<Rightarrow> nat \<Rightarrow> bool) \<Rightarrow> jstring \<Rightarrow> semantics \<Rightarrow> semantics" where
  "mineExternalFunctions wb astOutput semInfo =
     fold (\<lambda>m info.
             (let functionName = mgroup astOutput m 1
              in if info functionName = None
                 then info(functionName \<mapsto> jstr ''IMPORTED_FUNCTION'') else info))
          (findAll wb extFuncPattern astOutput 0) semInfo"

definition mineVariableUsages :: "(jstring \<Rightarrow> nat \<Rightarrow> bool) \<Rightarrow> jstring \<Rightarrow> semantics \<Rightarrow> semantics" where
  "mineVariableUsages wb userCodeSection semInfo =
     fold (\<lambda>m info.
             (let identifier = mgroup userCodeSection m 1
              in if info identifier = None \<and> identifier \<notin> set TRIVIL_KEYWORDS \<and>
                    identifier \<notin> set BUILT_IN_TYPES \<and> length identifier > 1 \<and>
                    (contains userCodeSection (jstr ''(VarDecl '' @ [34] @ identifier @ [34]) \<or>
                     contains userCodeSection (jstr ''= '' @ identifier) \<or>
                     contains userCodeSection (identifier @ jstr '' =''))
                 then info(identifier \<mapsto> jstr ''USER_VARIABLE'') else info))
          (findAll wb varUsagePattern userCodeSection 0) semInfo"

definition parseASTForSemanticInfo ::
  "(jstring \<Rightarrow> nat \<Rightarrow> bool) \<Rightarrow> (jchar \<Rightarrow> bool) \<Rightarrow> jstring \<Rightarrow> semantics \<Rightarrow> semantics" where
  "parseASTForSemanticInfo wb isLetter astOutput semInfo =
     (let userCodeSection = extractUserCodeFromAST wb astOutput
      in if userCodeSection = [] then semInfo
         else mineVariableUsages wb userCodeSection
               (mineExternalFunctions wb astOutput
                 (mineUserCalls wb userCodeSection
                   (mineSelectors wb userCodeSection
                     (mineParameters wb isLetter userCodeSection
                       (mineVarDecls wb userCodeSection
                         (mineImports wb userCodeSection
                           (mineUserFunctions wb userCodeSection semInfo))))))))"

section \<open>The merge of the semantic information into the tokens\<close>

definition mapSemanticTypeToTokenType :: "jstring \<Rightarrow> jstring" where
  "mapSemanticTypeToTokenType semanticType =
     (if semanticType = jstr ''USER_FUNCTION'' \<or> semanticType = jstr ''USER_FUNCTION_CALL''
        then jstr ''function.user''
      else if semanticType = jstr ''USER_VARIABLE'' then jstr ''variable.user''
      else if semanticType = jstr ''FUNCTION_PARAMETER'' then jstr ''variable.parameter''
      else if semanticType = jstr ''IMPORTED_CLASS'' then jstr ''class.imported''
      else if semanticType = jstr ''IMPORTED_METHOD'' \<or> semanticType = jstr ''IMPORTED_FUNCTION''
        then jstr ''function.imported''
      else if startsWith semanticType (jstr ''USER_VARIABLE:'') then jstr ''variable.user''
      else if startsWith semanticType (jstr ''FUNCTION_PARAMETER:'') then jstr ''variable.parameter''
      else if startsWith semanticType (jstr ''IMPORTED_CLASS:'') then jstr ''class.imported''
      else jstr ''identifier'')"

text \<open>\<^verbatim>\<open>improveBasicTokenType\<close>; the four type names \<^verbatim>\<open>Tsel64\<close>, \<^verbatim>\<open>Stroka\<close>, \<^verbatim>\<open>Bulev\<close>, \<^verbatim>\<open>Plav64\<close>
  are Cyrillic in the source.\<close>

definition improveBasicTokenType :: "SyntaxToken \<Rightarrow> jstring \<Rightarrow> jstring" where
  "improveBasicTokenType token tokenText =
     (if tokenText \<in> set TRIVIL_KEYWORDS then jstr ''keyword''
      else if tokenText \<in> set [[1062, 1077, 1083, 54, 52], [1057, 1090, 1088, 1086, 1082, 1072],
                                [1041, 1091, 1083, 1077, 1074], [1055, 1083, 1072, 1074, 54, 52]]
        then jstr ''type.builtin''
      else tokenType token)"

definition enhanceTokensWithSemanticInfo :: "SyntaxToken list \<Rightarrow> semantics \<Rightarrow> SyntaxToken list" where
  "enhanceTokensWithSemanticInfo tokens semInfo =
     map (\<lambda>token.
            (let tokenText = tokenValue token;
                 originalType = tokenType token
             in case semInfo tokenText of
                  Some semanticType \<Rightarrow>
                    newSyntaxToken (startLine token) (startColumn token) (endLine token)
                      (endColumn token) (mapSemanticTypeToTokenType semanticType)
                      (tokenValue token) (Some semanticType)
                | None \<Rightarrow>
                    (let improvedType = improveBasicTokenType token tokenText
                     in if improvedType \<noteq> originalType
                        then newSyntaxToken (startLine token) (startColumn token) (endLine token)
                               (endColumn token) improvedType (tokenValue token) None
                        else token)))
         tokens"

section \<open>\<^verbatim>\<open>analyzeSyntax\<close>\<close>

record SyntaxAnalysisResponse =
  analysisSuccess :: bool
  tokens :: "SyntaxToken list"
  analysisError :: "jstring option"
  analysisTimeMs :: "64 word"

definition SyntaxAnalysisResponse_success :: "SyntaxToken list \<Rightarrow> 64 word \<Rightarrow> SyntaxAnalysisResponse" where
  "SyntaxAnalysisResponse_success toks ms =
     \<lparr>analysisSuccess = True, tokens = toks, analysisError = None, analysisTimeMs = ms\<rparr>"

definition SyntaxAnalysisResponse_error :: "jstring \<Rightarrow> 64 word \<Rightarrow> SyntaxAnalysisResponse" where
  "SyntaxAnalysisResponse_error err ms =
     \<lparr>analysisSuccess = False, tokens = [], analysisError = Some err, analysisTimeMs = ms\<rparr>"

text \<open>
  What one call of \<^verbatim>\<open>analyzeSyntax\<close> reads from outside: a fresh UUID, the readings of the
  clock (at the start, in \<^verbatim>\<open>wrapInTrivilModule\<close>, at the end), whether creating the base
  directory, creating the session directory or writing the source file fails, how the
  compiler behaves in AST-dump mode on the wrapped text, and what is observed of its
  process after a kill. The two tables of the JDK are parameters of their own.
\<close>

record aenv =
  sessionUuid :: jstring
  analysisStart :: "64 word"
  wrapClock :: "64 word"
  analysisEnd :: "64 word"
  baseDirFails :: "jstring option"
  sessionDirFails :: "jstring option"
  sourceWriteFails :: "jstring option"
  astDump :: "jstring \<Rightarrow> behaviour"
  afterKill :: pstatus

text \<open>\<^verbatim>\<open>cleanupDirectory\<close>: the session directory and what is in it are deleted, failures
  only logged.\<close>

definition cleanupDirectory :: "jstring \<Rightarrow> jstring \<Rightarrow> world \<Rightarrow> world" where
  "cleanupDirectory dirPath dirName w =
     (emit (WalkAndDelete dirPath) w)\<lparr>entries := filter (\<lambda>e. fst e \<noteq> dirName) (entries w)\<rparr>"

text \<open>The innermost \<^verbatim>\<open>try\<close>: the AST dump, the mining and the merge. Any exception of the
  compiler tool is caught and logged, and the tokens stay as they are.\<close>

definition semanticEnhancement ::
  "TrivilCompilerProperties \<Rightarrow> (jstring \<Rightarrow> nat \<Rightarrow> bool) \<Rightarrow> (jchar \<Rightarrow> bool) \<Rightarrow> aenv
     \<Rightarrow> jstring \<Rightarrow> jstring \<Rightarrow> SyntaxToken list \<Rightarrow> service \<times> world
     \<Rightarrow> SyntaxToken list \<times> service \<times> world" where
  "semanticEnhancement props wb isLetter en wrappedCode sourceFile toks sw =
     (case runCompilerToolSafely props (astDump en wrappedCode) (afterKill en) sourceFile
             [jstr ''-ast'', jstr ''2''] sw of
        (Inl semanticError, sw1) \<Rightarrow> (toks, sw1)
      | (Inr astOutput, sw1) \<Rightarrow>
          (enhanceTokensWithSemanticInfo toks
             (parseASTForSemanticInfo wb isLetter astOutput Map.empty), sw1))"

text \<open>\<^verbatim>\<open>analyzeSyntax\<close>. The source text of the request is not null (the request is
  validated \<^verbatim>\<open>@NotNull\<close>).\<close>

definition analyzeSyntax ::
  "TrivilCompilerProperties \<Rightarrow> (jstring \<Rightarrow> nat \<Rightarrow> bool) \<Rightarrow> (jchar \<Rightarrow> bool) \<Rightarrow> aenv
     \<Rightarrow> jstring \<Rightarrow> service \<times> world \<Rightarrow> SyntaxAnalysisResponse \<times> service \<times> world" where
  "analyzeSyntax props wb isLetter en sourceCode sw0 =
     (let userCode = sanitizeInput sourceCode;
          toks = performStaticLexicalAnalysis wb userCode;
          baseTempDir = tempDirectory props;
          w1 = emit (CreateDirectories baseTempDir) (snd sw0);
          sessionName = jstr ''session_'' @ sessionUuid en;
          isolatedDir = resolve baseTempDir sessionName;
          w2 = emit (CreateDirectories isolatedDir) (w1\<lparr>dirExists := True\<rparr>);
          sourceFile = resolve isolatedDir (jstr ''main.tri'');
          wrappedCode = wrapInTrivilModule (wrapClock en) userCode;
          w3 = emit (WriteString sourceFile) (addEntry (sessionName, EmptyDirectory) w2);
          w4 = w3\<lparr>entries := map (\<lambda>e. if fst e = sessionName then (sessionName, NonEmptyDirectory)
                                         else e) (entries w3)\<rparr>;
          r = (case baseDirFails en of
                 Some msg \<Rightarrow> (toks, fst sw0, w1)
               | None \<Rightarrow>
                   (case sessionDirFails en of
                      Some msg \<Rightarrow> (toks, fst sw0, w2)
                    | None \<Rightarrow>
                        (case sourceWriteFails en of
                           Some msg \<Rightarrow> (toks, fst sw0, cleanupDirectory isolatedDir sessionName w3)
                         | None \<Rightarrow>
                             (let e = semanticEnhancement props wb isLetter en wrappedCode
                                        sourceFile toks (fst sw0, w4)
                              in (fst e, fst (snd e),
                                  cleanupDirectory isolatedDir sessionName (snd (snd e)))))))
      in (SyntaxAnalysisResponse_success (fst r) (analysisEnd en - analysisStart en), snd r))"

section \<open>Sample inputs\<close>

text \<open>The configuration of the no-argument constructor of \<^verbatim>\<open>TrivilCompilerProperties\<close>,
  and the same with small limits.\<close>

definition defaultProperties :: TrivilCompilerProperties where
  "defaultProperties =
     \<lparr>compilerPath = jstr ''/app/compiler/v0.79/trivil'', tempDirectory = jstr ''/app/temp'',
      compilationTimeoutMs = 300000, executionTimeoutMs = 10000,
      maxSourceCodeLength = 10000, maxOutputLength = 50000\<rparr>"

definition smallProperties :: TrivilCompilerProperties where
  "smallProperties = defaultProperties\<lparr>maxSourceCodeLength := 3, maxOutputLength := 5\<rparr>"

definition emptyWorld :: world where
  "emptyWorld = \<lparr>dirExists = False, entries = [], trace = []\<rparr>"

text \<open>A compiler that reports no errors and leaves the executable, and one that exits
  with code 1 and a message; a program that prints a line, and one that never exits.\<close>

definition compilerSucceeds :: "jstring \<Rightarrow> behaviour" where
  "compilerSucceeds src =
     \<lparr>outcome = Exits 0 (noErrorsMarker @ [10]), leaves = [(jstr ''temp_1a2b3c4d'', RegularFile)]\<rparr>"


definition programPrints :: "jstring \<Rightarrow> behaviour" where
  "programPrints exe = \<lparr>outcome = Exits 0 (jstr ''42'' @ [10]), leaves = []\<rparr>"

definition programHangs :: "jstring \<Rightarrow> behaviour" where
  "programHangs exe = \<lparr>outcome = NoExit, leaves = []\<rparr>"



definition sampleEnv :: "(jstring \<Rightarrow> behaviour) \<Rightarrow> (jstring \<Rightarrow> behaviour) \<Rightarrow> env" where
  "sampleEnv cb pb =
     \<lparr>uuid8 = jstr ''1a2b3c4d'', clockStart = 1000, clockEnd = 1250,
      createDirectoriesFails = None, listFails = False, writeFails = None,
      compiler = cb, program = pb\<rparr>"

definition requestA :: env where
  "requestA = sampleEnv compilerSucceeds programPrints"

definition requestB :: env where
  "requestB = (sampleEnv compilerSucceeds programPrints)\<lparr>uuid8 := jstr ''9f8e7d6c''\<rparr>"

definition compiledWorld :: world where
  "compiledWorld =
     \<lparr>dirExists = True,
      entries = [(jstr ''temp_1a2b3c4d.tri'', RegularFile), (jstr ''temp_1a2b3c4d'', RegularFile)],
      trace = []\<rparr>"

text \<open>The two tables of the JDK, for the sample runs: the word boundary of JDK 19 and
  later, where a word character is an ASCII letter, digit or underscore; and a letter
  test that is right on the Latin and the Russian letters.\<close>

definition asciiWord :: "jchar \<Rightarrow> bool" where
  "asciiWord c \<longleftrightarrow>
     (48 \<le> c \<and> c \<le> 57) \<or> (65 \<le> c \<and> c \<le> 90) \<or> (97 \<le> c \<and> c \<le> 122) \<or> c = 95"

definition asciiBoundary :: "jstring \<Rightarrow> nat \<Rightarrow> bool" where
  "asciiBoundary s i \<longleftrightarrow>
     (0 < i \<and> asciiWord (s ! (i - 1))) \<noteq> (i < length s \<and> asciiWord (s ! i))"

definition latinOrRussianLetter :: "jchar \<Rightarrow> bool" where
  "latinOrRussianLetter c \<longleftrightarrow>
     (65 \<le> c \<and> c \<le> 90) \<or> (97 \<le> c \<and> c \<le> 122) \<or> (1040 \<le> c \<and> c \<le> 1103) \<or>
     c = 1025 \<or> c = 1105"

text \<open>The one-word snippet \<^verbatim>\<open>esli\<close> (if), a keyword, and a two-line snippet that declares a
  function and assigns a variable.\<close>

definition snippetKeyword :: jstring where
  "snippetKeyword = [1077, 1089, 1083, 1080]"

definition snippetFunction :: jstring where
  "snippetFunction =
     [1092, 1085, 32] @ jstr ''f(a:T)'' @ [10] @ jstr ''x = f(1)''"

definition emptyService :: service where
  "emptyService = \<lparr>activeProcesses = [], processCounter = 0\<rparr>"

text \<open>An AST dump that exits with code 1 and no output, and one that never exits.\<close>

definition dumpExitsNonZero :: "jstring \<Rightarrow> behaviour" where
  "dumpExitsNonZero src = \<lparr>outcome = Exits 1 [], leaves = []\<rparr>"

definition dumpHangs :: "jstring \<Rightarrow> behaviour" where
  "dumpHangs src = \<lparr>outcome = NoExit, leaves = []\<rparr>"

definition sampleAenv :: "(jstring \<Rightarrow> behaviour) \<Rightarrow> aenv" where
  "sampleAenv db =
     \<lparr>sessionUuid = jstr ''0f1e2d3c-4b5a-4978-8695-a4b3c2d1e0f9'',
      analysisStart = 5000, wrapClock = 5001, analysisEnd = 5040,
      baseDirFails = None, sessionDirFails = None, sourceWriteFails = None,
      astDump = db, afterKill = Gone\<rparr>"

text \<open>For statements about the registry: the id that the next call of
  \<^verbatim>\<open>runCompilerToolSafely\<close> gives its process, and the number of events in a trace at which
  the entry of an id was taken out of the registry (a \<^verbatim>\<open>remove\<close> that found it, or a sweep
  that dropped it).\<close>

definition removesEntry :: "jstring \<Rightarrow> event \<Rightarrow> bool" where
  "removesEntry pid e =
     (case e of
        RegistryRemove p present \<Rightarrow> p = pid \<and> present
      | RegistrySweep pids \<Rightarrow> pid \<in> set pids
      | _ \<Rightarrow> False)"

definition removalsOf :: "jstring \<Rightarrow> event list \<Rightarrow> nat" where
  "removalsOf pid tr = length (filter (removesEntry pid) tr)"

definition nextProcessId :: "service \<Rightarrow> jstring" where
  "nextProcessId sv = jstr ''compiler-'' @ longToString (sint (processCounter sv + 1))"

section \<open>The compile service: reporting, limits, the shared directory, the processes\<close>




text \<open>
  \<^bold>\<open>C6.\<close> A source text longer than the configured maximum is answered with a compilation
  error, and the world is left as it was: the directory and its entries are unchanged and
  no event is added to the trace, so nothing was created, written, deleted or spawned.
\<close>

theorem compileAndExecute_overlength:
  assumes "length S > maxSourceCodeLength props"
  shows "resultType (fst (compileAndExecute props en (Some S) w)) = jstr ''compilation_error'' \<and>
         \<not> success (fst (compileAndExecute props en (Some S) w)) \<and>
         snd (compileAndExecute props en (Some S) w) = w"
  using assms by (simp add: compileAndExecute_def CompileResponse_compilationError_def)

theorem compileAndExecute_overlength_witness:
  "resultType (fst (compileAndExecute smallProperties (sampleEnv compilerSucceeds programPrints)
                      (Some (jstr ''abcd'')) emptyWorld)) = jstr ''compilation_error'' \<and>
   snd (compileAndExecute smallProperties (sampleEnv compilerSucceeds programPrints)
          (Some (jstr ''abcd'')) emptyWorld) = emptyWorld"
  using compileAndExecute_overlength [of smallProperties "jstr ''abcd''"
          "sampleEnv compilerSucceeds programPrints" emptyWorld]
  by (simp add: smallProperties_def defaultProperties_def jstr_def)






text \<open>
  \<^bold>\<open>C1.\<close> The claim asks for the result type \<^verbatim>\<open>timeout\<close> when the compiled program does not
  exit in time. The code answers such a run through the branch for a failed execution:
  here the compile succeeds, the program never exits, and the answer has the result type
  \<^verbatim>\<open>runtime_error\<close>, the message of the timeout and an elapsed time. \<^verbatim>\<open>CompileResponse.timeout\<close>
  exists and is never called.
\<close>

theorem execution_timeout_answered_as_runtime_error:
  "compileAndExecute defaultProperties (sampleEnv compilerSucceeds programHangs)
     (Some (jstr ''x'')) emptyWorld
   = (CompileResponse_runtimeError (jstr ''Program execution timeout exceeded'') 250,
      snd (compileAndExecute defaultProperties (sampleEnv compilerSucceeds programHangs)
             (Some (jstr ''x'')) emptyWorld)) \<and>
   resultType (CompileResponse_runtimeError (jstr ''Program execution timeout exceeded'') 250)
     \<noteq> resultType (CompileResponse_timeout (jstr ''Program execution timeout exceeded''))"
proof -
  have "fst (compileAndExecute defaultProperties (sampleEnv compilerSucceeds programHangs)
               (Some (jstr ''x'')) emptyWorld)
        = CompileResponse_runtimeError (jstr ''Program execution timeout exceeded'') 250"
    by code_simp
  moreover have "resultType (CompileResponse_runtimeError (jstr ''Program execution timeout exceeded'') 250)
     \<noteq> resultType (CompileResponse_timeout (jstr ''Program execution timeout exceeded''))"
    by code_simp
  ultimately show ?thesis by (simp add: prod_eq_iff)
qed

text \<open>More generally, no call of \<^verbatim>\<open>compileAndExecute\<close> answers with the result type
  \<^verbatim>\<open>timeout\<close>: every answer is a success, a compilation error or a runtime error.\<close>

lemma compileAndExecute_result_kinds:
  "resultType (fst (compileAndExecute props en src w)) = jstr ''success'' \<or>
   resultType (fst (compileAndExecute props en src w)) = jstr ''compilation_error'' \<or>
   resultType (fst (compileAndExecute props en src w)) = jstr ''runtime_error''"
  by (auto simp: compileAndExecute_def compileAndExecuteBody_def Let_def
        CompileResponse_success_def CompileResponse_compilationError_def
        CompileResponse_runtimeError_def
        split: option.splits prod.splits sum.splits exn.splits CompileResult.splits
               ExecutionResult.splits)

lemma compileAndExecute_never_timeout:
  "resultType (fst (compileAndExecute props en src w)) \<noteq> resultType (CompileResponse_timeout msg)"
proof -
  have "jstr ''timeout'' \<noteq> jstr ''success''" "jstr ''timeout'' \<noteq> jstr ''compilation_error''"
    "jstr ''timeout'' \<noteq> jstr ''runtime_error''"
    by (simp_all add: jstr_def)
  with compileAndExecute_result_kinds [of props en src w] show ?thesis
    by (auto simp: CompileResponse_timeout_def)
qed
text \<open>
  \<^bold>\<open>C2.\<close> The claim asks that the task draining the output is started before the bounded
  wait. In the compile service there is no such task: for the compiler and for the
  compiled program the wait comes right after the start, and the output is read only
  when the process has exited. (The AST-dump runner does start the drain first; that is
  proved in the next section.)
\<close>

theorem compile_service_waits_before_reading:
  "trace (snd (compileSource defaultProperties (compilerSucceeds (jstr ''x''))
                 (jstr ''temp_1a2b3c4d.tri'') emptyWorld)) =
     [ProcessStart [jstr ''/app/compiler/v0.79/trivil'', jstr ''temp_1a2b3c4d.tri''],
      WaitFor [jstr ''/app/compiler/v0.79/trivil'', jstr ''temp_1a2b3c4d.tri''] 300000,
      ReadOutput [jstr ''/app/compiler/v0.79/trivil'', jstr ''temp_1a2b3c4d.tri''],
      ListDirectory (jstr ''/app/temp'')] \<and>
   trace (snd (executeProgram defaultProperties requestA (jstr ''temp_1a2b3c4d.tri'')
                 compiledWorld)) =
     [ProcessStart [jstr ''/app/temp/temp_1a2b3c4d''],
      WaitFor [jstr ''/app/temp/temp_1a2b3c4d''] 10000,
      ReadOutput [jstr ''/app/temp/temp_1a2b3c4d'']]"
  by code_simp

text \<open>
  \<^bold>\<open>C3.\<close> The claim asks that no request deletes files in the directory of another request in
  flight. Compile requests all work in the configured temporary directory itself, and
  each begins by deleting every file there that looks temporary: when request B starts
  after request A has written its source file and before A's compiler has read it, B
  deletes A's source file. (An analysis request works in a directory of its own.)
\<close>

theorem compile_request_deletes_source_of_other_request:
  "filesExists (snd (prepareSourceFile defaultProperties requestA (jstr ''temp_1a2b3c4d.tri'')
                       emptyWorld)) (jstr ''temp_1a2b3c4d.tri'') \<and>
   \<not> filesExists
        (snd (prepareSourceFile defaultProperties requestB (jstr ''temp_9f8e7d6c.tri'')
                (snd (prepareSourceFile defaultProperties requestA (jstr ''temp_1a2b3c4d.tri'')
                        emptyWorld)))) (jstr ''temp_1a2b3c4d.tri'') \<and>
   DeleteIfExists (jstr ''temp_1a2b3c4d.tri'') \<notin>
     set (trace (snd (prepareSourceFile defaultProperties requestA (jstr ''temp_1a2b3c4d.tri'')
                        emptyWorld))) \<and>
   DeleteIfExists (jstr ''temp_1a2b3c4d.tri'') \<in>
     set (trace
        (snd (prepareSourceFile defaultProperties requestB (jstr ''temp_9f8e7d6c.tri'')
                (snd (prepareSourceFile defaultProperties requestA (jstr ''temp_1a2b3c4d.tri'')
                        emptyWorld)))))"
  by code_simp

lemma sample_run_trace:
  "trace (snd (compileAndExecute defaultProperties requestA (Some (jstr ''x'')) emptyWorld)) =
     [CreateDirectories (jstr ''/app/temp''), ListDirectory (jstr ''/app/temp''),
      WriteString (jstr ''temp_1a2b3c4d.tri''),
      ProcessStart [jstr ''/app/compiler/v0.79/trivil'', jstr ''temp_1a2b3c4d.tri''],
      WaitFor [jstr ''/app/compiler/v0.79/trivil'', jstr ''temp_1a2b3c4d.tri''] 300000,
      ReadOutput [jstr ''/app/compiler/v0.79/trivil'', jstr ''temp_1a2b3c4d.tri''],
      ListDirectory (jstr ''/app/temp''),
      ProcessStart [jstr ''/app/temp/temp_1a2b3c4d''],
      WaitFor [jstr ''/app/temp/temp_1a2b3c4d''] 10000,
      ReadOutput [jstr ''/app/temp/temp_1a2b3c4d''],
      DeleteIfExists (jstr ''temp_1a2b3c4d.tri''), DeleteIfExists (jstr ''temp_1a2b3c4d''),
      DeleteIfExists (jstr ''temp_1a2b3c4d.exe'')]"
  by code_simp

text \<open>
  \<^bold>\<open>C4.\<close> The claim asks that every spawned process is registered before the wait and
  removed from the registry afterwards. The compile service spawns the compiler and the
  compiled program and waits for both, and nothing is ever put into or removed from a
  registry. (The AST-dump runner does register and remove; that is proved in the next
  section.)
\<close>

theorem compile_service_registers_nothing:
  "ProcessStart [jstr ''/app/compiler/v0.79/trivil'', jstr ''temp_1a2b3c4d.tri'']
     \<in> set (trace (snd (compileAndExecute defaultProperties requestA (Some (jstr ''x'')) emptyWorld))) \<and>
   ProcessStart [jstr ''/app/temp/temp_1a2b3c4d'']
     \<in> set (trace (snd (compileAndExecute defaultProperties requestA (Some (jstr ''x'')) emptyWorld))) \<and>
   (\<forall>pid. RegistryPut pid
     \<notin> set (trace (snd (compileAndExecute defaultProperties requestA (Some (jstr ''x'')) emptyWorld)))) \<and>
   (\<forall>pid present. RegistryRemove pid present
     \<notin> set (trace (snd (compileAndExecute defaultProperties requestA (Some (jstr ''x'')) emptyWorld))))"
  unfolding sample_run_trace by simp

section \<open>The AST-dump runner: order of the steps, and the registry\<close>

text \<open>What the compile service lacks, \<^verbatim>\<open>runCompilerToolSafely\<close> does. When the process
  starts, the trace of the call begins: start, registration, start of the drain, and only
  then the bounded wait.\<close>

lemma runCompilerToolSafely_order:
  assumes "\<forall>msg. outcome b \<noteq> StartFails msg"
  shows "\<exists>rest. trace (snd (snd (runCompilerToolSafely props b k f args (sv, w)))) =
           trace w @
           [ProcessStart ([compilerPath props] @ args @ [f]),
            RegistryPut (nextProcessId sv),
            DrainStart ([compilerPath props] @ args @ [f]),
            WaitFor ([compilerPath props] @ args @ [f]) (compilationTimeoutMs props)] @ rest"
  using assms
  by (cases "outcome b")
     (simp_all add: runCompilerToolSafely_def Let_def emit_def finallyDeregister_def
        cleanupZombieProcesses_def nextProcessId_def)

lemma runCompilerToolSafely_order_witness:
  "\<exists>rest. trace (snd (snd (runCompilerToolSafely defaultProperties (dumpHangs []) Gone
                                (jstr ''/app/temp/session_0/main.tri'') [jstr ''-ast'', jstr ''2'']
                                (emptyService, emptyWorld)))) =
           trace emptyWorld @
           [ProcessStart ([compilerPath defaultProperties] @ [jstr ''-ast'', jstr ''2''] @
                          [jstr ''/app/temp/session_0/main.tri'']),
            RegistryPut (nextProcessId emptyService),
            DrainStart ([compilerPath defaultProperties] @ [jstr ''-ast'', jstr ''2''] @
                        [jstr ''/app/temp/session_0/main.tri'']),
            WaitFor ([compilerPath defaultProperties] @ [jstr ''-ast'', jstr ''2''] @
                     [jstr ''/app/temp/session_0/main.tri''])
                    (compilationTimeoutMs defaultProperties)] @ rest"
proof -
  have "\<forall>msg. outcome (dumpHangs []) \<noteq> StartFails msg"
    by (simp add: dumpHangs_def)
  from runCompilerToolSafely_order [OF this] show ?thesis .
qed

text \<open>On every path the id is out of the registry when the call returns, and for a
  process that was started exactly one removal took effect: the \<^verbatim>\<open>remove\<close> of the \<^verbatim>\<open>finally\<close>
  block, or on a timeout the sweep (the \<^verbatim>\<open>remove\<close> then finds nothing).\<close>

lemma registered_registryPut_filter:
  "registered pid (filter Q (registryPut pid k reg)) \<longleftrightarrow> Q (pid, k)"
  by (auto simp: registered_def registryPut_def image_iff)

lemma registryPut_twice:
  "registryPut pid k (registryPut pid k' reg) = registryPut pid k reg"
  by (simp add: registryPut_def)

lemma not_registered_registryRemove:
  "\<not> registered pid (registryRemove pid reg)"
  by (auto simp: registered_def registryRemove_def)

lemma registered_registryPut: "registered pid (registryPut pid k reg)"
  by (auto simp: registered_def registryPut_def)

lemma removalsOf_append: "removalsOf pid (xs @ ys) = removalsOf pid xs + removalsOf pid ys"
  by (simp add: removalsOf_def)

lemma swept_iff:
  "pid \<in> set (map fst (filter sweepRemoves (registryPut pid k reg))) \<longleftrightarrow> sweepRemoves (pid, k)"
  using registered_registryPut_filter [of pid sweepRemoves k reg]
  by (simp add: registered_def)

lemma runCompilerToolSafely_registry:
  shows "\<not> registered (nextProcessId sv)
            (activeProcesses (fst (snd (runCompilerToolSafely props b k f args (sv, w))))) \<and>
         removalsOf (nextProcessId sv)
            (trace (snd (snd (runCompilerToolSafely props b k f args (sv, w))))) =
           removalsOf (nextProcessId sv) (trace w) +
           (if (\<exists>msg. outcome b = StartFails msg) \<and> \<not> registered (nextProcessId sv) (activeProcesses sv)
            then 0 else 1)"
proof (cases "outcome b")
  case (StartFails msg)
  then show ?thesis
    by (simp add: runCompilerToolSafely_def Let_def emit_def finallyDeregister_def
          nextProcessId_def not_registered_registryRemove removalsOf_append)
       (simp add: removalsOf_def removesEntry_def)
next
  case (WaitInterrupted msg)
  then show ?thesis
    by (simp add: runCompilerToolSafely_def Let_def emit_def finallyDeregister_def
          nextProcessId_def not_registered_registryRemove removalsOf_append
          registryPut_twice registered_registryPut)
       (simp add: removalsOf_def removesEntry_def)
next
  case NoExit
  show ?thesis
  proof (cases "sweepRemoves (nextProcessId sv, k)")
    case True
    with NoExit show ?thesis
      by (simp add: runCompilerToolSafely_def Let_def emit_def finallyDeregister_def
            not_registered_registryRemove removalsOf_append registryPut_twice
            cleanupZombieProcesses_def registered_registryPut_filter
            flip: nextProcessId_def)
         (simp add: removalsOf_def removesEntry_def swept_iff del: set_map)
  next
    case False
    with NoExit show ?thesis
      by (simp add: runCompilerToolSafely_def Let_def emit_def finallyDeregister_def
            not_registered_registryRemove removalsOf_append registryPut_twice
            cleanupZombieProcesses_def registered_registryPut_filter
            flip: nextProcessId_def)
         (simp add: removalsOf_def removesEntry_def swept_iff del: set_map)
  qed
next
  case (Exits code stream)
  then show ?thesis
    by (simp add: runCompilerToolSafely_def Let_def emit_def finallyDeregister_def
          nextProcessId_def not_registered_registryRemove removalsOf_append
          registered_registryPut)
       (simp add: removalsOf_def removesEntry_def)
next
  case (ExitsUnreadable code msg)
  then show ?thesis
    by (simp add: runCompilerToolSafely_def Let_def emit_def finallyDeregister_def
          nextProcessId_def not_registered_registryRemove removalsOf_append
          registered_registryPut)
       (simp add: removalsOf_def removesEntry_def)
qed

lemma runCompilerToolSafely_registry_witness:
  "\<not> registered (nextProcessId emptyService)
       (activeProcesses (fst (snd (runCompilerToolSafely defaultProperties (dumpHangs []) Finishing
          (jstr ''/app/temp/session_0/main.tri'') [jstr ''-ast'', jstr ''2'']
          (emptyService, emptyWorld))))) \<and>
   removalsOf (nextProcessId emptyService)
       (trace (snd (snd (runCompilerToolSafely defaultProperties (dumpHangs []) Finishing
          (jstr ''/app/temp/session_0/main.tri'') [jstr ''-ast'', jstr ''2'']
          (emptyService, emptyWorld))))) = 1"
  using runCompilerToolSafely_registry [of emptyService defaultProperties "dumpHangs []" Finishing
          "jstr ''/app/temp/session_0/main.tri''" "[jstr ''-ast'', jstr ''2'']" emptyWorld]
  by (simp add: dumpHangs_def emptyWorld_def removalsOf_def)

section \<open>The analysis service: the static pass, the fallback, the wrapping\<close>

lemma analyzeLine_depends_on_sets:
  assumes "set F1 = set F2" and "set P1 = set P2" and "set V1 = set V2"
  shows "analyzeLineTokensWithGlobalContext wb l n F1 P1 V1 =
         analyzeLineTokensWithGlobalContext wb l n F2 P2 V2"
  unfolding analyzeLineTokensWithGlobalContext_def analyzeGlobalContextAwareIdentifiers_def assms
  by (rule refl)

lemma analyzeLines_depends_on_sets:
  assumes "set F1 = set F2" and "set P1 = set P2" and "set V1 = set V2"
  shows "analyzeLines wb ls F1 P1 V1 = analyzeLines wb ls F2 P2 V2"
  unfolding analyzeLines_def
  by (simp add: analyzeLine_depends_on_sets [OF assms])

text \<open>
  \<^bold>\<open>C8.\<close> The static pass is deterministic. The one thing in a call that the input does not
  fix is the order in which the three hash sets of the first pass hold their names (and a
  name added twice is held once). Take any two calls on the same text, the first holding
  the names as the lists \<open>F1\<close>, \<open>P1\<close>, \<open>V1\<close> and the second as \<open>F2\<close>, \<open>P2\<close>, \<open>V2\<close>: the second
  pass yields the same token sequence in both, tokens, order, positions and types, and it
  is the sequence \<open>performStaticLexicalAnalysis\<close> computes from the text alone.
\<close>

theorem static_pass_deterministic:
  assumes "set F1 = set (fst (fold (extractFunctionNamesAndParameters wb) (split src [10]) ([], [])))"
      and "set P1 = set (snd (fold (extractFunctionNamesAndParameters wb) (split src [10]) ([], [])))"
      and "set V1 = set (extractVariableNames wb (split src [10]))"
      and "set F2 = set (fst (fold (extractFunctionNamesAndParameters wb) (split src [10]) ([], [])))"
      and "set P2 = set (snd (fold (extractFunctionNamesAndParameters wb) (split src [10]) ([], [])))"
      and "set V2 = set (extractVariableNames wb (split src [10]))"
  shows "analyzeLines wb (split src [10]) F1 P1 V1 = analyzeLines wb (split src [10]) F2 P2 V2 \<and>
         analyzeLines wb (split src [10]) F1 P1 V1 = performStaticLexicalAnalysis wb src"
proof -
  have "analyzeLines wb (split src [10]) F1 P1 V1 = performStaticLexicalAnalysis wb src"
    unfolding performStaticLexicalAnalysis_def Let_def
    by (rule analyzeLines_depends_on_sets) (fact assms(1), fact assms(2), fact assms(3))
  moreover have "analyzeLines wb (split src [10]) F2 P2 V2 = performStaticLexicalAnalysis wb src"
    unfolding performStaticLexicalAnalysis_def Let_def
    by (rule analyzeLines_depends_on_sets) (fact assms(4), fact assms(5), fact assms(6))
  ultimately show ?thesis by simp
qed

text \<open>The witness: the two-line snippet, once with each name held once, once with each
  name twice.\<close>

theorem static_pass_deterministic_witness:
  "analyzeLines asciiBoundary (split snippetFunction [10]) [jstr ''f''] [jstr ''a''] [jstr ''x''] =
   analyzeLines asciiBoundary (split snippetFunction [10])
     [jstr ''f'', jstr ''f''] [jstr ''a'', jstr ''a''] [jstr ''x'', jstr ''x''] \<and>
   analyzeLines asciiBoundary (split snippetFunction [10]) [jstr ''f''] [jstr ''a''] [jstr ''x''] =
   performStaticLexicalAnalysis asciiBoundary snippetFunction"
proof -
  let ?ls = "split snippetFunction [10]"
  have f: "set [jstr ''f''] = set (fst (fold (extractFunctionNamesAndParameters asciiBoundary) ?ls ([], [])))"
    by code_simp
  have p: "set [jstr ''a''] = set (snd (fold (extractFunctionNamesAndParameters asciiBoundary) ?ls ([], [])))"
    by code_simp
  have v: "set [jstr ''x''] = set (extractVariableNames asciiBoundary ?ls)"
    by code_simp
  have f2: "set [jstr ''f'', jstr ''f''] = set (fst (fold (extractFunctionNamesAndParameters asciiBoundary) ?ls ([], [])))"
    by code_simp
  have p2: "set [jstr ''a'', jstr ''a''] = set (snd (fold (extractFunctionNamesAndParameters asciiBoundary) ?ls ([], [])))"
    by code_simp
  have v2: "set [jstr ''x'', jstr ''x''] = set (extractVariableNames asciiBoundary ?ls)"
    by code_simp
  from static_pass_deterministic [OF f p v f2 p2 v2] show ?thesis .
qed

lemma semanticInfo_newSyntaxToken:
  "semanticInfo (newSyntaxToken sl sc el ec ty v sem) = sem"
  by (simp add: newSyntaxToken_def)

lemma identifier_tokens_no_semanticInfo:
  "t \<in> set (analyzeGlobalContextAwareIdentifiers wb l n rs F P V) \<Longrightarrow> semanticInfo t = None"
  unfolding analyzeGlobalContextAwareIdentifiers_def Let_def
  by (auto simp: semanticInfo_newSyntaxToken)

lemma line_tokens_no_semanticInfo:
  "t \<in> set (analyzeLineTokensWithGlobalContext wb l n F P V) \<Longrightarrow> semanticInfo t = None"
  unfolding analyzeLineTokensWithGlobalContext_def Let_def
  by (auto simp: semanticInfo_newSyntaxToken split: option.splits
        dest: identifier_tokens_no_semanticInfo)

lemma static_tokens_no_semanticInfo:
  "t \<in> set (performStaticLexicalAnalysis wb src) \<Longrightarrow> semanticInfo t = None"
  unfolding performStaticLexicalAnalysis_def analyzeLines_def Let_def
  by (auto dest: line_tokens_no_semanticInfo)
lemma runCompilerToolSafely_fails:
  assumes "outcome b = NoExit \<or> (\<exists>msg. outcome b = StartFails msg) \<or>
           (\<exists>msg. outcome b = WaitInterrupted msg)"
  shows "\<exists>e. fst (runCompilerToolSafely props b k f args sw) = Inl e"
  using assms by (auto simp: runCompilerToolSafely_def Let_def)

text \<open>
  \<^bold>\<open>C7, as amended.\<close> When the AST-dump invocation does not exit within the timeout, cannot be
  started or is interrupted, the tokens of the answer are exactly those of the static
  pass, and none carries semantic information. (An exit with a non-zero code is not among
  these failures: see the counterexample below.)
\<close>

theorem analyzeSyntax_falls_back_to_static_tokens:
  assumes "outcome (astDump en (wrapInTrivilModule (wrapClock en) (sanitizeInput src))) = NoExit \<or>
           (\<exists>msg. outcome (astDump en (wrapInTrivilModule (wrapClock en) (sanitizeInput src)))
                    = StartFails msg) \<or>
           (\<exists>msg. outcome (astDump en (wrapInTrivilModule (wrapClock en) (sanitizeInput src)))
                    = WaitInterrupted msg)"
  shows "tokens (fst (analyzeSyntax props wb isLetter en src sw)) =
           performStaticLexicalAnalysis wb (sanitizeInput src) \<and>
         (\<forall>t \<in> set (tokens (fst (analyzeSyntax props wb isLetter en src sw))).
            semanticInfo t = None)"
proof -
  have sem: "fst (semanticEnhancement props wb isLetter en
                    (wrapInTrivilModule (wrapClock en) (sanitizeInput src)) f toks sw') = toks"
    for f toks sw'
    using runCompilerToolSafely_fails [OF assms, of props "afterKill en" f
            "[jstr ''-ast'', jstr ''2'']" sw']
    by (auto simp: semanticEnhancement_def split: prod.splits sum.splits)
  have "tokens (fst (analyzeSyntax props wb isLetter en src sw)) =
           performStaticLexicalAnalysis wb (sanitizeInput src)"
    by (simp add: analyzeSyntax_def Let_def sem SyntaxAnalysisResponse_success_def
          split: option.splits)
  then show ?thesis by (simp add: static_tokens_no_semanticInfo)
qed

text \<open>The witness: an AST dump that never exits, on the one-keyword snippet.\<close>

theorem analyzeSyntax_falls_back_to_static_tokens_witness:
  "tokens (fst (analyzeSyntax defaultProperties asciiBoundary latinOrRussianLetter
                  (sampleAenv dumpHangs) snippetKeyword (emptyService, emptyWorld))) =
     performStaticLexicalAnalysis asciiBoundary (sanitizeInput snippetKeyword) \<and>
   tokens (fst (analyzeSyntax defaultProperties asciiBoundary latinOrRussianLetter
                  (sampleAenv dumpHangs) snippetKeyword (emptyService, emptyWorld))) \<noteq> []"
proof -
  have h: "outcome (astDump (sampleAenv dumpHangs)
             (wrapInTrivilModule (wrapClock (sampleAenv dumpHangs)) (sanitizeInput snippetKeyword)))
           = NoExit"
    by (simp add: sampleAenv_def dumpHangs_def)
  have ne: "performStaticLexicalAnalysis asciiBoundary (sanitizeInput snippetKeyword) \<noteq> []"
    by code_simp
  from analyzeSyntax_falls_back_to_static_tokens [OF disjI1, OF h] ne show ?thesis by simp
qed

text \<open>
  \<^bold>\<open>C7, as stated, fails.\<close> An AST dump that exits with code 1 and prints nothing is not
  treated as a failure: its (empty) output is mined and the merge runs, and the merge
  rewrites the type of the keyword token from \<^verbatim>\<open>KEYWORD\<close> to \<^verbatim>\<open>keyword\<close>. The tokens of the
  answer are not those of the static pass.
\<close>

theorem nonzero_exit_is_not_a_fallback:
  "tokens (fst (analyzeSyntax defaultProperties asciiBoundary latinOrRussianLetter
                  (sampleAenv dumpExitsNonZero) snippetKeyword (emptyService, emptyWorld))) \<noteq>
   performStaticLexicalAnalysis asciiBoundary (sanitizeInput snippetKeyword)"
  by code_simp
lemma trim_keeps_prefix:
  assumes "p \<noteq> []" and "hd p > 32" and "c > 32"
  shows "prefix p (trim (p @ c # rest))"
proof -
  let ?P = "\<lambda>x::nat. x \<le> 32"
  from assms(1,2) have front: "dropWhile ?P (p @ c # rest) = p @ c # rest"
    by (cases p) auto
  have "\<exists>zs. dropWhile ?P (rev rest @ c # rev p) = zs @ c # rev p"
  proof (cases "\<forall>x \<in> set (rev rest). ?P x")
    case True
    with assms(3) have "dropWhile ?P (rev rest @ c # rev p) = [] @ c # rev p"
      by (simp add: dropWhile_append)
    then show ?thesis by blast
  next
    case False
    then obtain x where "x \<in> set (rev rest)" and "\<not> ?P x" by blast
    then have "dropWhile ?P (rev rest @ c # rev p) = dropWhile ?P (rev rest) @ c # rev p"
      by (rule dropWhile_append1)
    then show ?thesis by blast
  qed
  then obtain zs where "dropWhile ?P (rev rest @ c # rev p) = zs @ c # rev p" ..
  then have "trim (p @ c # rest) = p @ c # rev zs"
    by (simp add: trim_def front)
  then show ?thesis by simp
qed

text \<open>
  \<^bold>\<open>C9.\<close> Wrapping is idempotent: wrapping a wrapped text again, at whatever time, returns it
  unchanged; and a text whose trimmed form starts with the module keyword followed by a
  space is returned unchanged. (The clock names the module, so the first wrapping depends
  on its time \<open>t1\<close>; the second, at time \<open>t2\<close>, adds nothing.)
\<close>

theorem wrapInTrivilModule_idempotent:
  "wrapInTrivilModule t2 (wrapInTrivilModule t1 s) = wrapInTrivilModule t1 s \<and>
   (startsWith (trim s) modulePrefix \<longrightarrow> wrapInTrivilModule t1 s = s)"
proof (cases "startsWith (trim s) modulePrefix")
  case True
  then show ?thesis by (simp add: wrapInTrivilModule_def)
next
  case False
  obtain rest where r: "wrapInTrivilModule t1 s = modulePrefix @ 115 # rest"
    using False by (simp add: wrapInTrivilModule_def Let_def jstr_def)
  have "prefix modulePrefix (trim (modulePrefix @ 115 # rest))"
    by (rule trim_keeps_prefix) (simp_all add: modulePrefix_def moduleKeyword_def)
  with r have "startsWith (trim (wrapInTrivilModule t1 s)) modulePrefix"
    by (simp add: startsWith_def)
  then have "wrapInTrivilModule t2 (wrapInTrivilModule t1 s) = wrapInTrivilModule t1 s"
    by (simp add: wrapInTrivilModule_def)
  with False show ?thesis by simp
qed

text \<open>The witness: a snippet that uses the output facility, wrapped at two different
  times, and a text that already declares a module (after a leading blank).\<close>

theorem wrapInTrivilModule_idempotent_witness:
  "wrapInTrivilModule 7 (wrapInTrivilModule 1762135123456 [1074, 1099, 1074, 1086, 1076, 40, 49, 41]) =
     wrapInTrivilModule 1762135123456 [1074, 1099, 1074, 1086, 1076, 40, 49, 41] \<and>
   startsWith (trim ([32] @ modulePrefix @ jstr ''A'')) modulePrefix \<and>
   wrapInTrivilModule 1762135123456 ([32] @ modulePrefix @ jstr ''A'') =
     [32] @ modulePrefix @ jstr ''A''"
proof -
  have m: "startsWith (trim ([32] @ modulePrefix @ jstr ''A'')) modulePrefix"
    by code_simp
  from wrapInTrivilModule_idempotent
         [of 7 1762135123456 "[1074, 1099, 1074, 1086, 1076, 40, 49, 41]"]
       wrapInTrivilModule_idempotent [of 7 1762135123456 "[32] @ modulePrefix @ jstr ''A''"] m
  show ?thesis by blast
qed

text \<open>The space belongs to the test. A text that starts with the module keyword followed
  by another blank character is not recognised as declaring a module: the keyword, a
  tabulator and a name are wrapped in a second module header.\<close>

theorem keyword_before_tabulator_is_wrapped:
  "moduleKeyword \<in> set TRIVIL_KEYWORDS \<and>
   startsWith (trim (moduleKeyword @ [9, 65])) moduleKeyword \<and>
   wrapInTrivilModule 5001 (moduleKeyword @ [9, 65]) =
     modulePrefix @ jstr ''sample_5001'' @ [10, 10] @ moduleKeyword @ [9, 65] \<and>
   wrapInTrivilModule 5001 (moduleKeyword @ [9, 65]) \<noteq> moduleKeyword @ [9, 65]"
  by code_simp

end
